theory Spec2Isabelle
  imports Main "HOL-Library.AList"
begin

section \<open>Python values used by the backend\<close>

text \<open>
  Exceptions are values. \<open>WebSocketDisconnect\<close> is the transport's disconnect
  exception, \<open>RuntimeError\<close> is what the interpreter raises when a dict changes
  size while it is iterated, \<open>Exception\<close> stands for every other exception. The
  string carried by each is what \<open>str(e)\<close> yields. A clause
  \<open>except WebSocketDisconnect\<close> catches the first constructor only, a clause
  \<open>except Exception\<close> catches all three.
\<close>

datatype exn = WebSocketDisconnect string | RuntimeError string | Exception string

fun str :: "exn \<Rightarrow> string" where
  "str (WebSocketDisconnect s) = s"
| "str (RuntimeError s) = s"
| "str (Exception s) = s"

text \<open>
  A computation that threads a state and may raise: the state reached is returned
  together with the exception, since what was mutated before a raise stays mutated.
\<close>

type_synonym ('a, 's) io = "'s \<Rightarrow> (exn + 'a) \<times> 's"

text \<open>
  A string is its sequence of code points, each below 256; strings with other code
  points are outside the model. On these, \<open>lower\<close> is \<open>str.lower()\<close> (the
  letters 65 to 90 and 192 to 222 except 215 move up by 32), \<open>isspace\<close> is
  \<open>str.isspace\<close> of one character (9 to 13, 28 to 32, 133 and 160) and
  \<open>strip\<close> is \<open>str.strip()\<close>.
\<close>

definition lower_char :: "char \<Rightarrow> char" where
  "lower_char c =
     (let n = (of_char c :: nat)
      in if (65 \<le> n \<and> n \<le> 90) \<or> (192 \<le> n \<and> n \<le> 222 \<and> n \<noteq> 215)
         then char_of (n + 32) else c)"

definition lower :: "string \<Rightarrow> string" where
  "lower s = map lower_char s"

definition isspace :: "char \<Rightarrow> bool" where
  "isspace c =
     (let n = (of_char c :: nat)
      in (9 \<le> n \<and> n \<le> 13) \<or> (28 \<le> n \<and> n \<le> 32) \<or> n = 133 \<or> n = 160)"

definition strip :: "string \<Rightarrow> string" where
  "strip s = rev (dropWhile isspace (rev (dropWhile isspace s)))"

definition digit_char :: "nat \<Rightarrow> char" where
  "digit_char n = char_of (48 + n)"

function str_nat :: "nat \<Rightarrow> string" where
  "str_nat n = (if n < 10 then [digit_char n] else str_nat (n div 10) @ [digit_char (n mod 10)])"
  by pat_completeness auto
termination
  by (relation "measure id") auto

definition str_int :: "int \<Rightarrow> string" where
  "str_int i = (if i < 0 then CHR ''-'' # str_nat (nat (- i)) else str_nat (nat i))"

text \<open>
  A JSON object whose values are strings is an association list; \<open>get d k dflt\<close>
  is \<open>d.get(k, default)\<close>.
\<close>

type_synonym json_object = "(string \<times> string) list"

definition get :: "json_object \<Rightarrow> string \<Rightarrow> string \<Rightarrow> string" where
  "get d k dflt = (case map_of d k of None \<Rightarrow> dflt | Some v \<Rightarrow> v)"

text \<open>
  A JSON value as \<open>receive_json\<close> and a request model hand it over; a number
  with a fraction is kept as its decimal significand and exponent. \<open>type_name\<close>
  is the name of the value's Python type, and \<open>lower_method\<close> is the method call
  \<open>v.lower()\<close>: only a string has the method, on any other value the call raises
  \<open>AttributeError\<close>.
\<close>

datatype json =
  JNull | JBool bool | JInt int | JFloat int int | JStr string
  | JList "json list" | JDict "(string \<times> json) list"

fun type_name :: "json \<Rightarrow> string" where
  "type_name JNull = ''NoneType''"
| "type_name (JBool b) = ''bool''"
| "type_name (JInt i) = ''int''"
| "type_name (JFloat m x) = ''float''"
| "type_name (JStr s) = ''str''"
| "type_name (JList vs) = ''list''"
| "type_name (JDict kvs) = ''dict''"

definition quoted :: "string \<Rightarrow> string" where
  "quoted s = CHR 0x27 # s @ [CHR 0x27]"

fun lower_method :: "json \<Rightarrow> exn + string" where
  "lower_method (JStr s) = Inr (lower s)"
| "lower_method v =
     Inl (Exception (quoted (type_name v) @ '' object has no attribute '' @ quoted ''lower''))"

text \<open>
  The payload a client sends on the socket is a JSON object. The handler reads two of
  its keys: \<open>query\<close>, which when present is a string, and \<open>search_type\<close>,
  which when present is any JSON value. \<open>get_query\<close> is
  \<open>data.get("query", "")\<close> and \<open>get_search_type\<close> is
  \<open>data.get("search_type", "tavily")\<close>.
\<close>

record payload =
  payload_query :: "string option"
  payload_search_type :: "json option"

definition get_query :: "payload \<Rightarrow> string" where
  "get_query data = (case payload_query data of None \<Rightarrow> [] | Some v \<Rightarrow> v)"

definition get_search_type :: "payload \<Rightarrow> json" where
  "get_search_type data =
     (case payload_search_type data of None \<Rightarrow> JStr ''tavily'' | Some v \<Rightarrow> v)"

section \<open>app/models/query.py\<close>

record SearchResult =
  title :: string
  url :: string
  content :: string
  source :: string

section \<open>app/services/search_service.py\<close>

text \<open>
  The providers are the environment. A POST either raises (transport failure, timeout)
  or yields a response with its status code, its body text and what
  \<open>response.json()\<close> gives, which raises when the body is not JSON. The request
  body is fixed by the query and the configured key, so the environment answers per
  query. The bodies have the shape the adapters read: an optional \<open>answer\<close> and an
  optional \<open>results\<close> list for the first provider, optional \<open>organic\<close> and
  \<open>relatedSearches\<close> lists for the second.
\<close>

record tavily_json =
  tavily_answer :: "string option"
  tavily_results :: "json_object list option"

record serper_json =
  serper_organic :: "json_object list option"
  serper_relatedSearches :: "json_object list option"

record 'b response =
  status_code :: int
  body_text :: string
  json :: "exn + 'b"

record env =
  NEO4J_AVAILABLE :: bool
  post_tavily :: "string \<Rightarrow> exn + tavily_json response"
  post_serper :: "string \<Rightarrow> exn + serper_json response"
  AsyncGraphDatabase_driver :: "exn option"
  uuid4 :: "nat \<Rightarrow> string"

definition or_empty :: "'a list option \<Rightarrow> 'a list" where
  "or_empty xs = (case xs of None \<Rightarrow> [] | Some ys \<Rightarrow> ys)"

definition search_tavily :: "env \<Rightarrow> string \<Rightarrow> exn + SearchResult list" where
  "search_tavily e query =
     (case post_tavily e query of
        Inl x \<Rightarrow> Inl x
      | Inr response \<Rightarrow>
          if status_code response \<noteq> 200
          then Inl (Exception (''Tavily API error: '' @ str_int (status_code response)
                                 @ '' - '' @ body_text response))
          else (case json response of
                  Inl x \<Rightarrow> Inl x
                | Inr result \<Rightarrow>
                    Inr ((case tavily_answer result of
                            None \<Rightarrow> []
                          | Some a \<Rightarrow>
                              if a \<noteq> []
                              then [\<lparr>title = ''Summary Answer'', url = [], content = a,
                                     source = ''tavily''\<rparr>]
                              else [])
                         @ map (\<lambda>item. \<lparr>title = get item ''title'' [],
                                          url = get item ''url'' [],
                                          content = get item ''content'' [],
                                          source = ''tavily''\<rparr>)
                               (or_empty (tavily_results result)))))"

definition search_serper :: "env \<Rightarrow> string \<Rightarrow> exn + SearchResult list" where
  "search_serper e query =
     (case post_serper e query of
        Inl x \<Rightarrow> Inl x
      | Inr response \<Rightarrow>
          if status_code response \<noteq> 200
          then Inl (Exception (''Serper API error: '' @ str_int (status_code response)
                                 @ '' - '' @ body_text response))
          else (case json response of
                  Inl x \<Rightarrow> Inl x
                | Inr result \<Rightarrow>
                    Inr (map (\<lambda>item. \<lparr>title = get item ''title'' [],
                                        url = get item ''link'' [],
                                        content = get item ''snippet'' [],
                                        source = ''serper''\<rparr>)
                             (or_empty (serper_organic result))
                         @ map (\<lambda>item. \<lparr>title = ''Related: '' @ get item ''query'' [],
                                          url = [],
                                          content = get item ''query'' [],
                                          source = ''serper''\<rparr>)
                               (or_empty (serper_relatedSearches result)))))"

text \<open>
  The tag \<open>search_type\<close> is whatever the caller passes: the request model admits
  \<open>None\<close> beside a string and the socket payload any JSON value.
\<close>

definition search :: "env \<Rightarrow> string \<Rightarrow> json \<Rightarrow> exn + SearchResult list" where
  "search e query search_type =
     (case lower_method search_type of
        Inl x \<Rightarrow> Inl x
      | Inr t \<Rightarrow>
          if t = ''serper'' then search_serper e query
          else search_tavily e query)"

text \<open>
  The loop of \<open>search_streaming\<close>: the callback, when there is one, runs on each
  result in turn and an exception it raises ends the loop. The pause after each
  callback is real time only and changes no state.
\<close>

fun stream_results ::
  "(SearchResult \<Rightarrow> (unit, 's) io) option \<Rightarrow> SearchResult list \<Rightarrow> (unit, 's) io" where
  "stream_results callback [] s = (Inr (), s)"
| "stream_results callback (result # rest) s =
     (case callback of
        None \<Rightarrow> stream_results callback rest s
      | Some f \<Rightarrow>
          (case f result s of
             (Inl x, s') \<Rightarrow> (Inl x, s')
           | (Inr _, s') \<Rightarrow> stream_results callback rest s'))"

definition search_streaming ::
  "env \<Rightarrow> string \<Rightarrow> json \<Rightarrow> (SearchResult \<Rightarrow> (unit, 's) io) option \<Rightarrow> (unit, 's) io" where
  "search_streaming e query search_type callback s =
     (case lower_method search_type of
        Inl x \<Rightarrow> (Inl x, s)
      | Inr t \<Rightarrow>
          (case (if t = ''serper'' then search_serper e query
                 else search_tavily e query) of
             Inl x \<Rightarrow> (Inl x, s)
           | Inr rs \<Rightarrow> stream_results callback rs s))"

text \<open>The callback that records each invocation, in order, in a list.\<close>

definition record_call :: "SearchResult \<Rightarrow> (unit, SearchResult list) io" where
  "record_call result acc = (Inr (), acc @ [result])"

section \<open>app/services/graph_service.py\<close>

text \<open>
  The graph store is the environment of the service. It holds \<open>Query\<close> nodes,
  \<open>Source\<close> nodes and \<open>REFERENCES\<close> relationships between node identities.
  Every statement sent with \<open>session.run\<close> is its own transaction: it either
  raises, leaving the store as it was, or runs at the store's clock reading, which
  \<open>datetime()\<close> evaluates to. \<open>run_outcomes\<close> gives the outcome of the
  statements in the order they are sent.
\<close>

record query_node =
  q_id :: nat
  q_text :: string
  q_timestamp :: nat
  q_session_id :: "string option"

record source_node =
  s_id :: nat
  s_url :: string
  s_title :: string
  s_snippet :: string
  s_source :: string
  s_fetch_time :: nat

datatype outcome = Fails exn | Runs nat

record graph_db =
  queries :: "query_node list"
  sources :: "source_node list"
  references :: "(nat \<times> nat) list"
  next_id :: nat
  n_runs :: nat
  run_outcomes :: "nat \<Rightarrow> outcome"

datatype neo4j_driver = AsyncDriver

record graph_service =
  driver :: "neo4j_driver option"
  store :: graph_db

definition session_run :: "(nat \<Rightarrow> graph_db \<Rightarrow> graph_db) \<Rightarrow> (unit, graph_db) io" where
  "session_run statement db =
     (let db' = db\<lparr>n_runs := Suc (n_runs db)\<rparr> in
        case run_outcomes db (n_runs db) of
          Fails x \<Rightarrow> (Inl x, db')
        | Runs now \<Rightarrow> (Inr (), statement now db'))"

text \<open>
  \<open>MERGE (q:Query {text: $query_text}) SET q.timestamp = datetime() [, q.session_id =
  $session_id]\<close>: when no \<open>Query\<close> node has the text, one is created; then every
  node with the text gets the properties set. The session id is set by the first of the
  two statements of the source only.
\<close>

definition merge_query :: "string \<Rightarrow> string option \<Rightarrow> nat \<Rightarrow> graph_db \<Rightarrow> graph_db" where
  "merge_query query_text session_id now db =
     (let db1 = (if query_text \<in> q_text ` set (queries db) then db
                 else db\<lparr>queries := queries db @
                            [\<lparr>q_id = next_id db, q_text = query_text, q_timestamp = now,
                              q_session_id = None\<rparr>],
                          next_id := Suc (next_id db)\<rparr>)
      in db1\<lparr>queries :=
               map (\<lambda>q. if q_text q = query_text
                        then q\<lparr>q_timestamp := now,
                               q_session_id := (case session_id of
                                                  None \<Rightarrow> q_session_id q
                                                | Some s \<Rightarrow> Some s)\<rparr>
                        else q)
                   (queries db1)\<rparr>)"

text \<open>
  \<open>MERGE (s:Source {url: $url}) SET s.title = $title, s.snippet = $snippet,
  s.source = $source, s.fetch_time = datetime()\<close>.
\<close>

definition merge_source :: "SearchResult \<Rightarrow> nat \<Rightarrow> graph_db \<Rightarrow> graph_db" where
  "merge_source result now db =
     (let db1 = (if url result \<in> s_url ` set (sources db) then db
                 else db\<lparr>sources := sources db @
                            [\<lparr>s_id = next_id db, s_url = url result, s_title = [],
                              s_snippet = [], s_source = [], s_fetch_time = now\<rparr>],
                          next_id := Suc (next_id db)\<rparr>)
      in db1\<lparr>sources :=
               map (\<lambda>s. if s_url s = url result
                        then s\<lparr>s_title := title result, s_snippet := content result,
                               s_source := source result, s_fetch_time := now\<rparr>
                        else s)
                   (sources db1)\<rparr>)"

text \<open>
  \<open>MATCH (q:Query {text: $query_text}) MATCH (s:Source {url: $url})
  MERGE (q)-[:REFERENCES]->(s)\<close>: each matched pair gets the relationship unless it
  has it.
\<close>

definition merge_references :: "string \<Rightarrow> string \<Rightarrow> nat \<Rightarrow> graph_db \<Rightarrow> graph_db" where
  "merge_references query_text u now db =
     db\<lparr>references :=
          fold (\<lambda>p refs. if p \<in> set refs then refs else refs @ [p])
               (List.product (map q_id (filter (\<lambda>q. q_text q = query_text) (queries db)))
                             (map s_id (filter (\<lambda>s. s_url s = u) (sources db))))
               (references db)\<rparr>"

definition GraphService_connect :: "env \<Rightarrow> (unit, graph_service) io" where
  "GraphService_connect e g =
     (if \<not> NEO4J_AVAILABLE e then (Inr (), g)
      else case AsyncGraphDatabase_driver e of
             Some x \<Rightarrow> (Inl x, g)
           | None \<Rightarrow>
               (let g1 = g\<lparr>driver := Some AsyncDriver\<rparr> in
                  case session_run (\<lambda>now db. db) (store g1) of
                    (Inl x, db1) \<Rightarrow> (Inl x, g1\<lparr>store := db1\<rparr>)
                  | (Inr _, db1) \<Rightarrow> (Inr (), g1\<lparr>store := db1\<rparr>)))"

text \<open>The loop over the search results of \<open>save_query_and_sources\<close>.\<close>

fun save_sources :: "string \<Rightarrow> SearchResult list \<Rightarrow> (unit, graph_db) io" where
  "save_sources query_text [] db = (Inr (), db)"
| "save_sources query_text (result # rest) db =
     (if strip (url result) = [] then save_sources query_text rest db
      else case session_run (merge_source result) db of
             (Inl x, db1) \<Rightarrow> (Inl x, db1)
           | (Inr _, db1) \<Rightarrow>
               (case session_run (merge_references query_text (url result)) db1 of
                  (Inl x, db2) \<Rightarrow> (Inl x, db2)
                | (Inr _, db2) \<Rightarrow> save_sources query_text rest db2))"

definition truthy :: "string option \<Rightarrow> bool" where
  "truthy s = (case s of None \<Rightarrow> False | Some t \<Rightarrow> t \<noteq> [])"

definition save_query_and_sources ::
  "env \<Rightarrow> string \<Rightarrow> SearchResult list \<Rightarrow> string option \<Rightarrow> (unit, graph_service) io" where
  "save_query_and_sources e query_text search_results session_id g =
     (if \<not> NEO4J_AVAILABLE e then (Inr (), g)
      else if driver g = None
      then (Inl (Exception ''Neo4j driver not initialized. Call connect() first.''), g)
      else case session_run
                  (merge_query query_text (if truthy session_id then session_id else None))
                  (store g) of
             (Inl x, db1) \<Rightarrow> (Inl x, g\<lparr>store := db1\<rparr>)
           | (Inr _, db1) \<Rightarrow>
               (case save_sources query_text search_results db1 of
                  (r, db2) \<Rightarrow> (r, g\<lparr>store := db2\<rparr>)))"

text \<open>
  \<open>MATCH (q:Query) RETURN q.text AS query, q.timestamp AS timestamp ORDER BY
  q.timestamp DESC LIMIT $limit\<close>; the store refuses a negative limit.
\<close>

definition get_query_history :: "env \<Rightarrow> int \<Rightarrow> ((string \<times> nat) list, graph_service) io" where
  "get_query_history e limit g =
     (if \<not> NEO4J_AVAILABLE e then (Inr [], g)
      else if driver g = None
      then (Inl (Exception ''Neo4j driver not initialized. Call connect() first.''), g)
      else case session_run (\<lambda>now db. db) (store g) of
             (Inl x, db1) \<Rightarrow> (Inl x, g\<lparr>store := db1\<rparr>)
           | (Inr _, db1) \<Rightarrow>
               if limit < 0
               then (Inl (Exception ''Invalid input for LIMIT''), g\<lparr>store := db1\<rparr>)
               else (Inr (map (\<lambda>q. (q_text q, q_timestamp q))
                              (take (nat limit) (rev (sort_key q_timestamp (queries db1))))),
                     g\<lparr>store := db1\<rparr>))"

section \<open>app/websocket/stream_manager.py\<close>

text \<open>
  An outbound message is a dict of strings and integers. A websocket is an object on a
  heap of sockets: the registry and a session handler refer to the same one.
  \<open>send_outcome\<close> tells, for each call of \<open>send_text\<close> in turn, whether the
  transport raises; \<open>outbox\<close> is what was written to it.
\<close>

datatype jval = S string | N int

type_synonym message = "(string \<times> jval) list"

type_synonym ws_ref = nat

record websocket =
  accept_outcome :: "exn option"
  send_outcome :: "nat \<Rightarrow> exn option"
  n_sends :: nat
  outbox :: "message list"

text \<open>
  The process-wide state: the registry's \<open>active_connections\<close> dict in insertion
  order, the sockets, the graph service, how many identifiers \<open>uuid.uuid4()\<close> has
  handed out, and a log of the calls the session handler makes to
  \<open>save_query_and_sources\<close>.
\<close>

record world =
  active_connections :: "(string \<times> ws_ref) list"
  sockets :: "ws_ref \<Rightarrow> websocket"
  graph :: graph_service
  n_uuids :: nat
  save_calls :: "(string \<times> SearchResult list \<times> string option) list"

definition send_text :: "ws_ref \<Rightarrow> message \<Rightarrow> (unit, world) io" where
  "send_text ws m w =
     (let sock = (sockets w ws)\<lparr>n_sends := Suc (n_sends (sockets w ws))\<rparr> in
        case send_outcome (sockets w ws) (n_sends (sockets w ws)) of
          Some x \<Rightarrow> (Inl x, w\<lparr>sockets := (sockets w)(ws := sock)\<rparr>)
        | None \<Rightarrow>
            (Inr (), w\<lparr>sockets := (sockets w)(ws := sock\<lparr>outbox := outbox sock @ [m]\<rparr>)\<rparr>))"

definition connect :: "ws_ref \<Rightarrow> string \<Rightarrow> (unit, world) io" where
  "connect ws client_id w =
     (case accept_outcome (sockets w ws) of
        Some x \<Rightarrow> (Inl x, w)
      | None \<Rightarrow>
          (Inr (), w\<lparr>active_connections := AList.update client_id ws (active_connections w)\<rparr>))"

definition disconnect :: "string \<Rightarrow> world \<Rightarrow> world" where
  "disconnect client_id w =
     (if client_id \<in> fst ` set (active_connections w)
      then w\<lparr>active_connections := AList.delete client_id (active_connections w)\<rparr>
      else w)"

definition send_message :: "ws_ref \<Rightarrow> message \<Rightarrow> (unit, world) io" where
  "send_message ws m w = send_text ws m w"

text \<open>
  \<open>broadcast\<close> iterates \<open>active_connections.items()\<close>. The iterator remembers
  the size of the dict when the loop starts and, each time the loop asks for the next
  item (the time that ends the loop included), raises \<open>RuntimeError\<close> when the size
  is no longer that.
\<close>

fun broadcast_loop :: "nat \<Rightarrow> (string \<times> ws_ref) list \<Rightarrow> message \<Rightarrow> (unit, world) io" where
  "broadcast_loop di_used [] m w =
     (if length (active_connections w) \<noteq> di_used
      then (Inl (RuntimeError ''dictionary changed size during iteration''), w)
      else (Inr (), w))"
| "broadcast_loop di_used ((client_id, ws) # rest) m w =
     (if length (active_connections w) \<noteq> di_used
      then (Inl (RuntimeError ''dictionary changed size during iteration''), w)
      else case send_text ws m w of
             (Inr _, w1) \<Rightarrow> broadcast_loop di_used rest m w1
           | (Inl x, w1) \<Rightarrow>
               (case x of
                  WebSocketDisconnect c \<Rightarrow> broadcast_loop di_used rest m (disconnect client_id w1)
                | _ \<Rightarrow> (Inl x, w1)))"

definition broadcast :: "message \<Rightarrow> (unit, world) io" where
  "broadcast m w = broadcast_loop (length (active_connections w)) (active_connections w) m w"

section \<open>app/routes/query_routes.py\<close>

definition startup_event :: "env \<Rightarrow> (unit, world) io" where
  "startup_event e w =
     (case GraphService_connect e (graph w) of (r, g) \<Rightarrow> (r, w\<lparr>graph := g\<rparr>))"

definition result_callback ::
  "env \<Rightarrow> ws_ref \<Rightarrow> SearchResult \<Rightarrow> (unit, world \<times> SearchResult list) io" where
  "result_callback e ws result st =
     (case st of (w, results) \<Rightarrow>
        (let source_data = [(''event'', S ''source''),
                            (''title'', S (title result)),
                            (''url'', S (url result)),
                            (''snippet'', S (content result)),
                            (''source_id'', S (take 8 (uuid4 e (n_uuids w))))];
             w1 = w\<lparr>n_uuids := Suc (n_uuids w)\<rparr>
         in case send_message ws source_data w1 of
              (Inl x, w2) \<Rightarrow> (Inl x, (w2, results))
            | (Inr _, w2) \<Rightarrow> (Inr (), (w2, results @ [result]))))"

text \<open>
  The body of the \<open>try\<close> of \<open>websocket_stream_endpoint\<close>. \<open>inbound\<close> is what
  \<open>receive_json\<close> does: it raises, or yields the client's payload.
\<close>

definition endpoint_try :: "env \<Rightarrow> exn + payload \<Rightarrow> ws_ref \<Rightarrow> string \<Rightarrow> (unit, world) io" where
  "endpoint_try e inbound ws session_id w =
     (case inbound of
        Inl x \<Rightarrow> (Inl x, w)
      | Inr data \<Rightarrow>
          (let query_text = get_query data;
               search_type = get_search_type data
           in if query_text = []
              then send_message ws [(''event'', S ''error''),
                                    (''message'', S ''Query text is required'')] w
              else case send_message ws [(''event'', S ''status''),
                                         (''message'', S ''Searching sources...'')] w of
                     (Inl x, w1) \<Rightarrow> (Inl x, w1)
                   | (Inr _, w1) \<Rightarrow>
                       (case search_streaming e query_text search_type
                               (Some (result_callback e ws)) (w1, []) of
                          (Inl x, (w2, results)) \<Rightarrow>
                            send_message ws [(''event'', S ''error''),
                                             (''message'', S (''Search failed: '' @ str x))] w2
                        | (Inr _, (w2, results)) \<Rightarrow>
                            (let w3 = w2\<lparr>save_calls := save_calls w2 @
                                          [(query_text, results, Some session_id)]\<rparr>;
                                 w4 = w3\<lparr>graph := snd (save_query_and_sources e query_text
                                                           results (Some session_id) (graph w3))\<rparr>
                             in send_message ws [(''event'', S ''done''),
                                                 (''total_results'', N (int (length results)))]
                                  w4))))"

definition websocket_stream_endpoint ::
  "env \<Rightarrow> exn + payload \<Rightarrow> ws_ref \<Rightarrow> string \<Rightarrow> (unit, world) io" where
  "websocket_stream_endpoint e inbound ws session_id w =
     (case connect ws session_id w of
        (Inl x, w0) \<Rightarrow> (Inl x, w0)
      | (Inr _, w0) \<Rightarrow>
          (case endpoint_try e inbound ws session_id w0 of
             (Inr _, w1) \<Rightarrow> (Inr (), w1)
           | (Inl x, w1) \<Rightarrow>
               (case x of
                  WebSocketDisconnect c \<Rightarrow> (Inr (), disconnect session_id w1)
                | _ \<Rightarrow>
                    (Inr (), disconnect session_id
                               (snd (send_message ws
                                       [(''event'', S ''error''),
                                        (''message'', S (''WebSocket error: '' @ str x))] w1))))))"

section \<open>What a session wrote\<close>

definition emitted :: "ws_ref \<Rightarrow> world \<Rightarrow> world \<Rightarrow> message list" where
  "emitted ws w w' = drop (length (outbox (sockets w ws))) (outbox (sockets w' ws))"

definition event_of :: "message \<Rightarrow> jval option" where
  "event_of m = map_of m ''event''"

definition source_event :: "env \<Rightarrow> nat \<Rightarrow> SearchResult \<Rightarrow> message" where
  "source_event e k result =
     [(''event'', S ''source''), (''title'', S (title result)), (''url'', S (url result)),
      (''snippet'', S (content result)), (''source_id'', S (take 8 (uuid4 e k)))]"

definition status_event :: message where
  "status_event = [(''event'', S ''status''), (''message'', S ''Searching sources...'')]"

definition done_event :: "nat \<Rightarrow> message" where
  "done_event n = [(''event'', S ''done''), (''total_results'', N (int n))]"

section \<open>What the store holds\<close>

text \<open>
  The number of \<open>Query\<close> records with a given text and of \<open>Source\<close> records
  with a given URL.
\<close>

definition query_count :: "graph_db \<Rightarrow> string \<Rightarrow> nat" where
  "query_count db t = count_list (map q_text (queries db)) t"

definition source_count :: "graph_db \<Rightarrow> string \<Rightarrow> nat" where
  "source_count db u = count_list (map s_url (sources db)) u"

section \<open>Concrete environments\<close>

text \<open>
  A first provider that answers with a summary and one item, a second provider that
  times out.
\<close>

definition env0 :: env where
  "env0 = \<lparr>NEO4J_AVAILABLE = True,
           post_tavily = (\<lambda>q. Inr \<lparr>status_code = 200, body_text = [],
                                    json = Inr \<lparr>tavily_answer = Some ''A'',
                                               tavily_results =
                                                 Some [[(''title'', ''T''),
                                                        (''url'', ''http://a'')]]\<rparr>\<rparr>),
           post_serper = (\<lambda>q. Inl (Exception ''timeout'')),
           AsyncGraphDatabase_driver = None,
           uuid4 = (\<lambda>k. ''0123456789ab'')\<rparr>"

definition results0 :: "SearchResult list" where
  "results0 = [\<lparr>title = ''Summary Answer'', url = [], content = ''A'', source = ''tavily''\<rparr>,
               \<lparr>title = ''T'', url = ''http://a'', content = [], source = ''tavily''\<rparr>]"

text \<open>
  A socket whose transport accepts every write, an empty store that runs every
  statement (at clock reading \<open>n\<close> for the \<open>n\<close>-th), and a process with a
  connected graph service and no session yet.
\<close>

definition sock0 :: websocket where
  "sock0 = \<lparr>accept_outcome = None, send_outcome = (\<lambda>n. None), n_sends = 0, outbox = []\<rparr>"

definition db0 :: graph_db where
  "db0 = \<lparr>queries = [], sources = [], references = [], next_id = 0, n_runs = 0,
          run_outcomes = (\<lambda>n. Runs n)\<rparr>"

definition world0 :: world where
  "world0 = \<lparr>active_connections = [], sockets = (\<lambda>r. sock0),
             graph = \<lparr>driver = Some AsyncDriver, store = db0\<rparr>,
             n_uuids = 0, save_calls = []\<rparr>"

text \<open>The same process with a store that refuses every statement.\<close>

definition world_down :: world where
  "world_down = world0\<lparr>graph := \<lparr>driver = Some AsyncDriver,
      store = db0\<lparr>run_outcomes := (\<lambda>n. Fails (Exception ''ServiceUnavailable''))\<rparr>\<rparr>\<rparr>"

text \<open>
  A socket whose peer is gone, a registry of two sessions the first of which has that
  socket, a process whose graph service was never connected and whose store refuses
  every statement, and an environment without the graph driver package.
\<close>

definition sock_gone :: websocket where
  "sock_gone = sock0\<lparr>send_outcome := (\<lambda>n. Some (WebSocketDisconnect ''1006''))\<rparr>"

definition world_bc :: world where
  "world_bc = world0\<lparr>active_connections := [(''a'', 0), (''b'', Suc 0)],
                      sockets := (\<lambda>r. if r = 0 then sock_gone else sock0)\<rparr>"

definition world_cold :: world where
  "world_cold = world0\<lparr>graph := \<lparr>driver = None,
      store = db0\<lparr>run_outcomes := (\<lambda>n. Fails (Exception ''ServiceUnavailable''))\<rparr>\<rparr>\<rparr>"

definition env_mock :: env where
  "env_mock = env0\<lparr>NEO4J_AVAILABLE := False\<rparr>"

text \<open>
  Two saves of the same query and results into the empty store, and a result list whose
  only URL is white space.
\<close>

definition graph1 :: graph_service where
  "graph1 = snd (save_query_and_sources env0 ''q'' results0 (Some ''s1'') (graph world0))"

definition graph2 :: graph_service where
  "graph2 = snd (save_query_and_sources env0 ''q'' results0 (Some ''s2'') graph1)"

definition blank0 :: "SearchResult list" where
  "blank0 = [\<lparr>title = ''Related: x'', url = ''  '', content = ''x'', source = ''serper''\<rparr>]"

text \<open>
  Payloads: a query alone, an empty query, and the query with the tags \<open>serper\<close>,
  \<open>tavily\<close>, \<open>Bing\<close> and \<open>null\<close>.
\<close>

definition payload_q :: payload where
  "payload_q = \<lparr>payload_query = Some ''q'', payload_search_type = None\<rparr>"

definition payload_empty :: payload where
  "payload_empty = \<lparr>payload_query = Some [], payload_search_type = None\<rparr>"

definition payload_serper :: payload where
  "payload_serper = \<lparr>payload_query = Some ''q'', payload_search_type = Some (JStr ''serper'')\<rparr>"

definition payload_tavily :: payload where
  "payload_tavily = \<lparr>payload_query = Some ''q'', payload_search_type = Some (JStr ''tavily'')\<rparr>"

definition payload_Bing :: payload where
  "payload_Bing = \<lparr>payload_query = Some ''q'', payload_search_type = Some (JStr ''Bing'')\<rparr>"

definition payload_null :: payload where
  "payload_null = \<lparr>payload_query = Some ''q'', payload_search_type = Some JNull\<rparr>"

section \<open>The search service\<close>

lemma stream_results_record_call:
  "stream_results (Some record_call) rs acc = (Inr (), acc @ rs)"
  by (induction rs arbitrary: acc) (simp_all add: record_call_def)

lemma search_streaming_fetch:
  "search_streaming e query search_type callback s =
     (case search e query search_type of
        Inl x \<Rightarrow> (Inl x, s)
      | Inr rs \<Rightarrow> stream_results callback rs s)"
  by (simp add: search_streaming_def search_def split: sum.splits)

text \<open>
  C1. For every query (the non-empty ones among them) and every provider tag: when the
  full-fetch \<open>search\<close> returns the list \<open>rs\<close> for the provider's response,
  \<open>search_streaming\<close> on the same response returns normally, and the list of its
  callback invocations, recorded one entry per invocation in the order they happen,
  is \<open>rs\<close> itself.
\<close>

theorem search_streaming_callbacks:
  "search e query search_type = Inr rs \<Longrightarrow>
   search_streaming e query search_type (Some record_call) [] = (Inr (), rs)"
  by (simp add: search_streaming_fetch stream_results_record_call)

lemma lower_Tavily: "lower ''Tavily'' = ''tavily''"
  by code_simp

lemma search_tavily_env0: "search_tavily env0 ''q'' = Inr results0"
  by (simp add: search_tavily_def env0_def get_def or_empty_def results0_def)

lemma search_serper_env0: "search_serper env0 ''q'' = Inl (Exception ''timeout'')"
  by (simp add: search_serper_def env0_def)

lemma search_env0: "search env0 ''q'' (JStr ''Tavily'') = Inr results0"
  by (simp add: search_def lower_Tavily search_tavily_env0)

theorem search_streaming_callbacks_witness:
  "search env0 ''q'' (JStr ''Tavily'') = Inr results0 \<and>
   search_streaming env0 ''q'' (JStr ''Tavily'') (Some record_call) [] = (Inr (), results0)"
  using search_streaming_callbacks [OF search_env0] search_env0 by simp

section \<open>The streaming session\<close>

lemma send_message_frame:
  "send_message ws m w = (r, w') \<Longrightarrow>
     active_connections w' = active_connections w \<and> graph w' = graph w \<and>
     save_calls w' = save_calls w \<and> n_uuids w' = n_uuids w \<and>
     send_outcome (sockets w' ws) = send_outcome (sockets w ws) \<and>
     accept_outcome (sockets w' ws) = accept_outcome (sockets w ws) \<and>
     n_sends (sockets w' ws) = Suc (n_sends (sockets w ws))"
  by (auto simp: send_message_def send_text_def Let_def split: option.splits)

lemma send_message_outbox:
  "send_message ws m w = (r, w') \<Longrightarrow>
     outbox (sockets w' ws) = outbox (sockets w ws) @ (case r of Inl _ \<Rightarrow> [] | Inr _ \<Rightarrow> [m])"
  by (auto simp: send_message_def send_text_def Let_def split: option.splits)

lemma send_message_result:
  "fst (send_message ws m w) =
     (case send_outcome (sockets w ws) (n_sends (sockets w ws)) of
        None \<Rightarrow> Inr () | Some x \<Rightarrow> Inl x)"
  by (auto simp: send_message_def send_text_def Let_def split: option.splits)

lemma result_callback_step:
  "result_callback e ws a (w, acc) =
     (case send_message ws (source_event e (n_uuids w) a) (w\<lparr>n_uuids := Suc (n_uuids w)\<rparr>) of
        (Inl x, w2) \<Rightarrow> (Inl x, (w2, acc))
      | (Inr _, w2) \<Rightarrow> (Inr (), (w2, acc @ [a])))"
  by (simp add: result_callback_def source_event_def Let_def)

lemma stream_results_frame:
  "stream_results (Some (result_callback e ws)) rs (w, acc) = (r, (w', acc')) \<Longrightarrow>
     active_connections w' = active_connections w \<and> graph w' = graph w \<and>
     save_calls w' = save_calls w \<and>
     send_outcome (sockets w' ws) = send_outcome (sockets w ws) \<and>
     accept_outcome (sockets w' ws) = accept_outcome (sockets w ws) \<and>
     (\<exists>ms. outbox (sockets w' ws) = outbox (sockets w ws) @ ms \<and>
           (\<forall>m\<in>set ms. event_of m = Some (S ''source'')))"
proof (induction rs arbitrary: w acc)
  case Nil
  then show ?case by simp
next
  case (Cons a rs)
  obtain r1 w1 where s: "send_message ws (source_event e (n_uuids w) a) (w\<lparr>n_uuids := Suc (n_uuids w)\<rparr>) = (r1, w1)"
    by (cases "send_message ws (source_event e (n_uuids w) a) (w\<lparr>n_uuids := Suc (n_uuids w)\<rparr>)")
  note f = send_message_frame [OF s] send_message_outbox [OF s]
  show ?case
  proof (cases r1)
    case (Inl x)
    with Cons.prems s f show ?thesis
      by (auto simp: result_callback_step)
  next
    case (Inr u)
    with Cons.prems s have "stream_results (Some (result_callback e ws)) rs (w1, acc @ [a]) = (r, (w', acc'))"
      by (auto simp: result_callback_step)
    from Cons.IH [OF this] f Inr show ?thesis
      by (auto simp: source_event_def event_of_def)
  qed
qed


lemma upt_shift: "[n..<Suc (n + k)] = n # [Suc n..<Suc (n + k)]"
  by (subst upt_rec) simp

lemma stream_results_healthy:
  "\<forall>n. send_outcome (sockets w ws) n = None \<Longrightarrow>
   stream_results (Some (result_callback e ws)) rs (w, acc) = (r, (w', acc')) \<Longrightarrow>
     r = Inr () \<and> acc' = acc @ rs \<and> n_uuids w' = n_uuids w + length rs \<and>
     outbox (sockets w' ws) = outbox (sockets w ws) @
       map (\<lambda>(k, a). source_event e k a) (zip [n_uuids w..<n_uuids w + length rs] rs)"
proof (induction rs arbitrary: w acc)
  case Nil
  then show ?case by simp
next
  case (Cons a rs)
  obtain r1 w1 where s: "send_message ws (source_event e (n_uuids w) a) (w\<lparr>n_uuids := Suc (n_uuids w)\<rparr>) = (r1, w1)"
    by (cases "send_message ws (source_event e (n_uuids w) a) (w\<lparr>n_uuids := Suc (n_uuids w)\<rparr>)")
  note f = send_message_frame [OF s] send_message_outbox [OF s]
  have r1: "r1 = Inr ()"
    using send_message_result [of ws "source_event e (n_uuids w) a" "w\<lparr>n_uuids := Suc (n_uuids w)\<rparr>"] s Cons.prems(1)
    by simp
  have h: "\<forall>n. send_outcome (sockets w1 ws) n = None"
    using f Cons.prems(1) by simp
  have "stream_results (Some (result_callback e ws)) rs (w1, acc @ [a]) = (r, (w', acc'))"
    using Cons.prems(2) s r1 by (simp add: result_callback_step)
  from Cons.IH [OF h this] f r1 show ?case
    by (simp add: upt_shift del: upt_Suc)
qed

lemma connect_ok:
  "accept_outcome (sockets w ws) = None \<Longrightarrow>
   connect ws sid w = (Inr (), w\<lparr>active_connections := AList.update sid ws (active_connections w)\<rparr>)"
  by (simp add: connect_def)

lemma connect_fail:
  "accept_outcome (sockets w ws) = Some x \<Longrightarrow> connect ws sid w = (Inl x, w)"
  by (simp add: connect_def)

lemma emitted_append:
  "outbox (sockets w' ws) = outbox (sockets w ws) @ ms \<Longrightarrow> emitted ws w w' = ms"
  by (simp add: emitted_def)

lemma disconnect_frame:
  "sockets (disconnect sid w) = sockets w \<and> graph (disconnect sid w) = graph w \<and>
   save_calls (disconnect sid w) = save_calls w"
  by (simp add: disconnect_def)

lemma disconnect_absent: "map_of (active_connections (disconnect sid w)) sid = None"
proof (cases "sid \<in> fst ` set (active_connections w)")
  case True
  then show ?thesis by (simp add: disconnect_def delete_conv')
next
  case False
  then show ?thesis by (simp add: disconnect_def map_of_eq_None_iff)
qed

text \<open>What the handler does around the body of its try.\<close>

lemma endpoint_wrap:
  assumes a: "accept_outcome (sockets w ws) = None"
    and b: "endpoint_try e inbound ws sid
              (w\<lparr>active_connections := AList.update sid ws (active_connections w)\<rparr>) = (r, w1)"
  shows "\<exists>w'. websocket_stream_endpoint e inbound ws sid w = (Inr (), w') \<and>
              graph w' = graph w1 \<and> save_calls w' = save_calls w1 \<and>
              (case r of
                 Inr _ \<Rightarrow> w' = w1
               | Inl x \<Rightarrow>
                   map_of (active_connections w') sid = None \<and>
                   (\<exists>ms. outbox (sockets w' ws) = outbox (sockets w1 ws) @ ms \<and>
                         (\<forall>m\<in>set ms. event_of m = Some (S ''error''))))"
proof (cases r)
  case (Inr u)
  then show ?thesis
    using a b by (simp add: websocket_stream_endpoint_def connect_ok)
next
  case (Inl x)
  obtain r2 w2 where s: "send_message ws [(''event'', S ''error''),
        (''message'', S (''WebSocket error: '' @ str x))] w1 = (r2, w2)"
    by (cases "send_message ws [(''event'', S ''error''),
        (''message'', S (''WebSocket error: '' @ str x))] w1")
  note f = send_message_frame [OF s] send_message_outbox [OF s]
  show ?thesis
  proof (cases x)
    case (WebSocketDisconnect c)
    then show ?thesis
      using a b Inl
      by (simp add: websocket_stream_endpoint_def connect_ok disconnect_frame disconnect_absent)
  next
    case (RuntimeError c)
    then show ?thesis
      using a b Inl s f
      by (cases r2) (simp_all add: websocket_stream_endpoint_def connect_ok disconnect_frame
          disconnect_absent event_of_def)
  next
    case (Exception c)
    then show ?thesis
      using a b Inl s f
      by (cases r2) (simp_all add: websocket_stream_endpoint_def connect_ok disconnect_frame
          disconnect_absent event_of_def)
  qed
qed


lemma endpoint_try_empty:
  "get_query data = [] \<Longrightarrow>
   endpoint_try e (Inr data) ws sid w =
     send_message ws [(''event'', S ''error''), (''message'', S ''Query text is required'')] w"
  by (simp add: endpoint_try_def)

lemma endpoint_try_search_failed:
  "get_query data \<noteq> [] \<Longrightarrow>
   search e (get_query data) (get_search_type data) = Inl x \<Longrightarrow>
   endpoint_try e (Inr data) ws sid w =
     (case send_message ws [(''event'', S ''status''), (''message'', S ''Searching sources...'')] w of
        (Inl y, w1) \<Rightarrow> (Inl y, w1)
      | (Inr _, w1) \<Rightarrow>
          send_message ws [(''event'', S ''error''),
                           (''message'', S (''Search failed: '' @ str x))] w1)"
  by (simp add: endpoint_try_def search_streaming_fetch Let_def split: prod.splits sum.splits)

text \<open>
  C2. A session whose payload carries an empty query string makes no call to
  \<open>save_query_and_sources\<close> and leaves the graph service as it was, and nothing
  it writes is a \<open>source\<close> or a \<open>done\<close> event, whatever the transport does.
  When the transport accepts the connection and the write, what the session writes is
  exactly one event, the \<open>error\<close> event with the message
  \<open>Query text is required\<close>.
\<close>

theorem empty_query_session:
  assumes q: "get_query data = []"
  shows "save_calls (snd (websocket_stream_endpoint e (Inr data) ws sid w)) = save_calls w \<and>
         graph (snd (websocket_stream_endpoint e (Inr data) ws sid w)) = graph w \<and>
         (\<forall>m\<in>set (emitted ws w (snd (websocket_stream_endpoint e (Inr data) ws sid w))).
            event_of m \<noteq> Some (S ''source'') \<and> event_of m \<noteq> Some (S ''done'')) \<and>
         (accept_outcome (sockets w ws) = None \<and>
          send_outcome (sockets w ws) (n_sends (sockets w ws)) = None \<longrightarrow>
            emitted ws w (snd (websocket_stream_endpoint e (Inr data) ws sid w))
              = [[(''event'', S ''error''), (''message'', S ''Query text is required'')]])"
proof (cases "accept_outcome (sockets w ws)")
  case (Some x)
  then show ?thesis
    by (simp add: websocket_stream_endpoint_def connect_fail emitted_def)
next
  case None
  define w0 where "w0 = w\<lparr>active_connections := AList.update sid ws (active_connections w)\<rparr>"
  define m0 where "m0 = [(''event'', S ''error''), (''message'', S ''Query text is required'')]"
  obtain r w1 where s: "send_message ws m0 w0 = (r, w1)"
    by (cases "send_message ws m0 w0")
  have b: "endpoint_try e (Inr data) ws sid w0 = (r, w1)"
    using s q by (simp add: endpoint_try_empty m0_def)
  note f = send_message_frame [OF s] send_message_outbox [OF s]
  from endpoint_wrap [OF None b [unfolded w0_def]]
  obtain w' where w': "websocket_stream_endpoint e (Inr data) ws sid w = (Inr (), w')"
    "graph w' = graph w1" "save_calls w' = save_calls w1"
    "case r of Inr _ \<Rightarrow> w' = w1
     | Inl x \<Rightarrow> map_of (active_connections w') sid = None \<and>
         (\<exists>ms. outbox (sockets w' ws) = outbox (sockets w1 ws) @ ms \<and>
               (\<forall>m\<in>set ms. event_of m = Some (S ''error'')))"
    by blast
  have o: "\<exists>ms. outbox (sockets w' ws) = outbox (sockets w ws) @ ms \<and>
                (\<forall>m\<in>set ms. event_of m = Some (S ''error''))"
    using w'(4) f by (cases r) (auto simp: w0_def m0_def event_of_def)
  have c12: "save_calls w' = save_calls w \<and> graph w' = graph w"
    using w' f by (simp add: w0_def)
  have c3: "\<forall>m\<in>set (emitted ws w w').
            event_of m \<noteq> Some (S ''source'') \<and> event_of m \<noteq> Some (S ''done'')"
    using o by (auto simp: emitted_append)
  have c4: "emitted ws w w' = [m0]"
    if "send_outcome (sockets w ws) (n_sends (sockets w ws)) = None"
  proof -
    have "r = Inr ()"
      using send_message_result [of ws m0 w0] s that by (simp add: w0_def)
    then show ?thesis
      using w'(4) f by (simp add: w0_def emitted_append)
  qed
  show ?thesis
    using c12 c3 c4 by (simp add: w'(1) m0_def)
qed


theorem empty_query_session_witness:
  "get_query payload_empty = [] \<and>
   accept_outcome (sockets world0 0) = None \<and>
   send_outcome (sockets world0 0) (n_sends (sockets world0 0)) = None \<and>
   save_calls (snd (websocket_stream_endpoint env0 (Inr payload_empty) 0 ''s1'' world0))
     = save_calls world0 \<and>
   graph (snd (websocket_stream_endpoint env0 (Inr payload_empty) 0 ''s1'' world0))
     = graph world0 \<and>
   emitted 0 world0 (snd (websocket_stream_endpoint env0 (Inr payload_empty) 0 ''s1'' world0))
     = [[(''event'', S ''error''), (''message'', S ''Query text is required'')]]"
  using empty_query_session [where data = "payload_empty" and e = env0 and ws = 0
      and sid = "''s1''" and w = world0]
  by (simp add: get_query_def payload_empty_def world0_def sock0_def)

text \<open>
  C7. A session with a non-empty query whose adapter raises \<open>x\<close> makes no call to
  \<open>save_query_and_sources\<close>, leaves the graph service as it was and writes no
  \<open>done\<close> event, whatever the transport does. When the transport accepts the
  connection and the two writes, the handler returns and what the session wrote is the
  \<open>status\<close> event followed by the \<open>error\<close> event whose message is
  \<open>Search failed: \<close> followed by \<open>str(x)\<close>.
\<close>

theorem search_failure_session:
  assumes q: "get_query data \<noteq> []"
    and sf: "search e (get_query data) (get_search_type data) = Inl x"
  shows "save_calls (snd (websocket_stream_endpoint e (Inr data) ws sid w)) = save_calls w \<and>
         graph (snd (websocket_stream_endpoint e (Inr data) ws sid w)) = graph w \<and>
         (\<forall>m\<in>set (emitted ws w (snd (websocket_stream_endpoint e (Inr data) ws sid w))).
            event_of m \<noteq> Some (S ''done'')) \<and>
         (accept_outcome (sockets w ws) = None \<and>
          send_outcome (sockets w ws) (n_sends (sockets w ws)) = None \<and>
          send_outcome (sockets w ws) (Suc (n_sends (sockets w ws))) = None \<longrightarrow>
            fst (websocket_stream_endpoint e (Inr data) ws sid w) = Inr () \<and>
            emitted ws w (snd (websocket_stream_endpoint e (Inr data) ws sid w))
              = [[(''event'', S ''status''), (''message'', S ''Searching sources...'')],
                 [(''event'', S ''error''), (''message'', S (''Search failed: '' @ str x))]])"
proof (cases "accept_outcome (sockets w ws)")
  case (Some y)
  then show ?thesis
    by (simp add: websocket_stream_endpoint_def connect_fail emitted_def)
next
  case None
  define w0 where "w0 = w\<lparr>active_connections := AList.update sid ws (active_connections w)\<rparr>"
  define m1 where "m1 = [(''event'', S ''status''), (''message'', S ''Searching sources...'')]"
  define m2 where "m2 = [(''event'', S ''error''), (''message'', S (''Search failed: '' @ str x))]"
  obtain r1 w1 where s1: "send_message ws m1 w0 = (r1, w1)"
    by (cases "send_message ws m1 w0")
  obtain r2 w2 where s2: "send_message ws m2 w1 = (r2, w2)"
    by (cases "send_message ws m2 w1")
  note f1 = send_message_frame [OF s1] send_message_outbox [OF s1]
  note f2 = send_message_frame [OF s2] send_message_outbox [OF s2]
  define r where "r = (case r1 of Inl y \<Rightarrow> Inl y | Inr _ \<Rightarrow> r2)"
  define wb where "wb = (case r1 of Inl y \<Rightarrow> w1 | Inr _ \<Rightarrow> w2)"
  have b: "endpoint_try e (Inr data) ws sid w0 = (r, wb)"
    using s1 s2 by (cases r1) (simp_all add: endpoint_try_search_failed [OF q sf] m1_def m2_def
        r_def wb_def)
  have fb: "save_calls wb = save_calls w \<and> graph wb = graph w"
    using f1 f2 by (cases r1) (simp_all add: wb_def w0_def)
  have ob: "\<exists>ms. outbox (sockets wb ws) = outbox (sockets w ws) @ ms \<and>
                 (\<forall>m\<in>set ms. event_of m \<noteq> Some (S ''done''))"
    using f1 f2 by (cases r1; cases r2) (simp_all add: wb_def w0_def m1_def m2_def event_of_def)
  from endpoint_wrap [OF None b [unfolded w0_def]]
  obtain w' where w': "websocket_stream_endpoint e (Inr data) ws sid w = (Inr (), w')"
    "graph w' = graph wb" "save_calls w' = save_calls wb"
    "case r of Inr _ \<Rightarrow> w' = wb
     | Inl x \<Rightarrow> map_of (active_connections w') sid = None \<and>
         (\<exists>ms. outbox (sockets w' ws) = outbox (sockets wb ws) @ ms \<and>
               (\<forall>m\<in>set ms. event_of m = Some (S ''error'')))"
    by blast
  have o: "\<exists>ms. outbox (sockets w' ws) = outbox (sockets w ws) @ ms \<and>
                (\<forall>m\<in>set ms. event_of m \<noteq> Some (S ''done''))"
  proof (cases r)
    case (Inr u)
    then show ?thesis using w'(4) ob by simp
  next
    case (Inl y)
    with w'(4) obtain ms2 where
      "outbox (sockets w' ws) = outbox (sockets wb ws) @ ms2"
      "\<forall>m\<in>set ms2. event_of m = Some (S ''error'')"
      by auto
    moreover from ob obtain ms1 where
      "outbox (sockets wb ws) = outbox (sockets w ws) @ ms1"
      "\<forall>m\<in>set ms1. event_of m \<noteq> Some (S ''done'')"
      by auto
    ultimately have "outbox (sockets w' ws) = outbox (sockets w ws) @ (ms1 @ ms2) \<and>
                     (\<forall>m\<in>set (ms1 @ ms2). event_of m \<noteq> Some (S ''done''))"
      by auto
    then show ?thesis by blast
  qed
  have c3: "\<forall>m\<in>set (emitted ws w w'). event_of m \<noteq> Some (S ''done'')"
    using o by (auto simp: emitted_append)
  have c4: "emitted ws w w' = [m1, m2]"
    if h1: "send_outcome (sockets w ws) (n_sends (sockets w ws)) = None"
      and h2: "send_outcome (sockets w ws) (Suc (n_sends (sockets w ws))) = None"
  proof -
    have r1: "r1 = Inr ()"
      using send_message_result [of ws m1 w0] s1 h1 by (simp add: w0_def)
    have r2: "r2 = Inr ()"
      using send_message_result [of ws m2 w1] s2 h2 f1 by (simp add: w0_def)
    show ?thesis
      using w'(4) f1 f2 r1 r2 by (simp add: r_def wb_def w0_def emitted_append)
  qed
  show ?thesis
    using fb c3 c4 w'(2,3) by (simp add: w'(1) m1_def m2_def)
qed

lemma lower_serper: "lower ''serper'' = ''serper''"
  by code_simp

lemma lower_tavily: "lower ''tavily'' = ''tavily''"
  by code_simp

lemma search_env0_serper: "search env0 ''q'' (JStr ''serper'') = Inl (Exception ''timeout'')"
  by (simp add: search_def lower_serper search_serper_env0)

theorem search_failure_session_witness:
  "get_query payload_serper \<noteq> [] \<and>
   search env0 (get_query payload_serper)
     (get_search_type payload_serper)
     = Inl (Exception ''timeout'') \<and>
   accept_outcome (sockets world0 0) = None \<and>
   send_outcome (sockets world0 0) (n_sends (sockets world0 0)) = None \<and>
   send_outcome (sockets world0 0) (Suc (n_sends (sockets world0 0))) = None \<and>
   save_calls (snd (websocket_stream_endpoint env0
       (Inr payload_serper) 0 ''s1'' world0))
     = save_calls world0 \<and>
   graph (snd (websocket_stream_endpoint env0
       (Inr payload_serper) 0 ''s1'' world0))
     = graph world0 \<and>
   fst (websocket_stream_endpoint env0
       (Inr payload_serper) 0 ''s1'' world0) = Inr () \<and>
   emitted 0 world0 (snd (websocket_stream_endpoint env0
       (Inr payload_serper) 0 ''s1'' world0))
     = [[(''event'', S ''status''), (''message'', S ''Searching sources...'')],
        [(''event'', S ''error''), (''message'', S ''Search failed: timeout'')]]"
proof -
  have g: "get_query payload_serper = ''q''"
          "get_search_type payload_serper = JStr ''serper''"
    by (simp_all add: get_query_def get_search_type_def payload_serper_def)
  have q: "get_query payload_serper \<noteq> []"
    by (simp add: g)
  have sf: "search env0 (get_query payload_serper)
     (get_search_type payload_serper)
     = Inl (Exception ''timeout'')"
    by (simp add: g search_env0_serper)
  show ?thesis
    using search_failure_session [OF q sf, where ws = 0 and sid = "''s1''" and w = world0] q sf
    by (simp add: world0_def sock0_def)
qed

lemma search_streaming_frame:
  assumes "search_streaming e q t (Some (result_callback e ws)) (w, acc) = (r, (w', acc'))"
  shows "active_connections w' = active_connections w \<and> graph w' = graph w \<and>
     save_calls w' = save_calls w \<and>
     send_outcome (sockets w' ws) = send_outcome (sockets w ws) \<and>
     accept_outcome (sockets w' ws) = accept_outcome (sockets w ws) \<and>
     (\<exists>ms. outbox (sockets w' ws) = outbox (sockets w ws) @ ms \<and>
           (\<forall>m\<in>set ms. event_of m = Some (S ''source'')))"
proof (cases "search e q t")
  case (Inl x)
  then show ?thesis using assms by (simp add: search_streaming_fetch)
next
  case (Inr rs)
  then have "stream_results (Some (result_callback e ws)) rs (w, acc) = (r, (w', acc'))"
    using assms by (simp add: search_streaming_fetch)
  then show ?thesis by (rule stream_results_frame)
qed

lemma endpoint_try_success:
  assumes h: "\<forall>n. send_outcome (sockets w ws) n = None"
    and q: "get_query data \<noteq> []"
    and sr: "search e (get_query data) (get_search_type data) = Inr rs"
  shows "\<exists>w'. endpoint_try e (Inr data) ws sid w = (Inr (), w') \<and>
     active_connections w' = active_connections w \<and>
     save_calls w' = save_calls w @ [(get_query data, rs, Some sid)] \<and>
     graph w' = snd (save_query_and_sources e (get_query data) rs (Some sid) (graph w)) \<and>
     outbox (sockets w' ws) = outbox (sockets w ws) @
       status_event #
       map (\<lambda>(k, a). source_event e k a) (zip [n_uuids w..<n_uuids w + length rs] rs) @
       [done_event (length rs)]"
proof -
  define qt where "qt = get_query data"
  obtain r1 w1 where s1: "send_message ws status_event w = (r1, w1)"
    by (cases "send_message ws status_event w")
  note f1 = send_message_frame [OF s1] send_message_outbox [OF s1]
  have r1: "r1 = Inr ()"
    using send_message_result [of ws status_event w] s1 h by simp
  have h1: "\<forall>n. send_outcome (sockets w1 ws) n = None"
    using f1 h by simp
  obtain r2 w2 acc2 where
    s2: "stream_results (Some (result_callback e ws)) rs (w1, []) = (r2, (w2, acc2))"
    by (cases "stream_results (Some (result_callback e ws)) rs (w1, [])") auto
  note f2 = stream_results_frame [OF s2] stream_results_healthy [OF h1 s2]
  define w4 where "w4 = w2\<lparr>save_calls := save_calls w2 @ [(qt, acc2, Some sid)],
      graph := snd (save_query_and_sources e qt acc2 (Some sid) (graph w2))\<rparr>"
  obtain r3 w3 where s3: "send_message ws (done_event (length acc2)) w4 = (r3, w3)"
    by (cases "send_message ws (done_event (length acc2)) w4")
  note f3 = send_message_frame [OF s3] send_message_outbox [OF s3]
  have r3: "r3 = Inr ()"
    using send_message_result [of ws "done_event (length acc2)" w4] s3 h1 f2
    by (simp add: w4_def)
  have "endpoint_try e (Inr data) ws sid w = (Inr (), w3)"
    using q sr s1 r1 s2 f2(2) s3 r3
    by (simp add: endpoint_try_def Let_def search_streaming_fetch status_event_def [symmetric]
        done_event_def [symmetric] w4_def qt_def)
  moreover have "active_connections w3 = active_connections w"
    using f1 f2 f3 by (simp add: w4_def)
  moreover have "save_calls w3 = save_calls w @ [(qt, rs, Some sid)]"
    using f1 f2 f3 by (simp add: w4_def)
  moreover have "graph w3 = snd (save_query_and_sources e qt rs (Some sid) (graph w))"
    using f1 f2 f3 by (simp add: w4_def)
  moreover have "outbox (sockets w3 ws) = outbox (sockets w ws) @
       status_event #
       map (\<lambda>(k, a). source_event e k a) (zip [n_uuids w..<n_uuids w + length rs] rs) @
       [done_event (length rs)]"
    using f1 f2 f3 r1 r3 by (simp add: w4_def)
  ultimately show ?thesis
    by (simp add: qt_def)
qed

lemma healthy_session:
  assumes a: "accept_outcome (sockets w ws) = None"
    and h: "\<forall>n. send_outcome (sockets w ws) n = None"
    and q: "get_query data \<noteq> []"
    and sr: "search e (get_query data) (get_search_type data) = Inr rs"
  shows "\<exists>w'. websocket_stream_endpoint e (Inr data) ws sid w = (Inr (), w') \<and>
     active_connections w' = AList.update sid ws (active_connections w) \<and>
     save_calls w' = save_calls w @ [(get_query data, rs, Some sid)] \<and>
     graph w' = snd (save_query_and_sources e (get_query data) rs (Some sid) (graph w)) \<and>
     emitted ws w w' =
       status_event #
       map (\<lambda>(k, a). source_event e k a) (zip [n_uuids w..<n_uuids w + length rs] rs) @
       [done_event (length rs)]"
proof -
  define w0 where "w0 = w\<lparr>active_connections := AList.update sid ws (active_connections w)\<rparr>"
  have h0: "\<forall>n. send_outcome (sockets w0 ws) n = None"
    using h by (simp add: w0_def)
  from endpoint_try_success [OF h0 q sr, of sid] obtain w1 where
    b: "endpoint_try e (Inr data) ws sid w0 = (Inr (), w1)"
    and f: "active_connections w1 = active_connections w0"
      "save_calls w1 = save_calls w0 @ [(get_query data, rs, Some sid)]"
      "graph w1 = snd (save_query_and_sources e (get_query data) rs (Some sid) (graph w0))"
      "outbox (sockets w1 ws) = outbox (sockets w0 ws) @
         status_event #
         map (\<lambda>(k, a). source_event e k a) (zip [n_uuids w0..<n_uuids w0 + length rs] rs) @
         [done_event (length rs)]"
    by blast
  have "websocket_stream_endpoint e (Inr data) ws sid w = (Inr (), w1)"
    using a b by (simp add: websocket_stream_endpoint_def connect_ok w0_def)
  then show ?thesis
    using f by (simp add: w0_def emitted_append)
qed

lemma source_event_kind: "event_of (source_event e k a) = Some (S ''source'')"
  by (simp add: event_of_def source_event_def)

lemma count_source_events:
  "length ks = length rs \<Longrightarrow>
   filter (\<lambda>m. event_of m = Some (S ''source''))
       (map (\<lambda>(k, a). source_event e k a) (zip ks rs))
     = map (\<lambda>(k, a). source_event e k a) (zip ks rs)"
  by (induction ks rs rule: list_induct2) (simp_all add: source_event_kind)

text \<open>
  C3. In a session over a transport that accepts the connection and every write, with
  a non-empty query for which the search returns \<open>rs\<close>: when
  \<open>save_query_and_sources\<close> raises on that query and those results, the handler
  still returns normally, the save was called once with them, and what the session
  wrote is the \<open>status\<close> event, one \<open>source\<close> event per result in order, and
  last a \<open>done\<close> event whose \<open>total_results\<close> is the number of results, which
  is the number of \<open>source\<close> events written.
\<close>

theorem persistence_failure_session:
  assumes a: "accept_outcome (sockets w ws) = None"
    and h: "\<forall>n. send_outcome (sockets w ws) n = None"
    and q: "get_query data \<noteq> []"
    and sr: "search e (get_query data) (get_search_type data) = Inr rs"
    and pf: "fst (save_query_and_sources e (get_query data) rs (Some sid) (graph w)) = Inl x"
  shows "fst (websocket_stream_endpoint e (Inr data) ws sid w) = Inr () \<and>
     save_calls (snd (websocket_stream_endpoint e (Inr data) ws sid w))
       = save_calls w @ [(get_query data, rs, Some sid)] \<and>
     emitted ws w (snd (websocket_stream_endpoint e (Inr data) ws sid w)) =
       [(''event'', S ''status''), (''message'', S ''Searching sources...'')] #
       map (\<lambda>(k, a). source_event e k a) (zip [n_uuids w..<n_uuids w + length rs] rs) @
       [[(''event'', S ''done''), (''total_results'', N (int (length rs)))]] \<and>
     length (filter (\<lambda>m. event_of m = Some (S ''source''))
               (emitted ws w (snd (websocket_stream_endpoint e (Inr data) ws sid w))))
       = length rs"
proof -
  from healthy_session [OF a h q sr, of sid] obtain w' where
    e: "websocket_stream_endpoint e (Inr data) ws sid w = (Inr (), w')"
    and f: "save_calls w' = save_calls w @ [(get_query data, rs, Some sid)]"
      "emitted ws w w' =
         status_event #
         map (\<lambda>(k, a). source_event e k a) (zip [n_uuids w..<n_uuids w + length rs] rs) @
         [done_event (length rs)]"
    by blast
  have "length (filter (\<lambda>m. event_of m = Some (S ''source'')) (emitted ws w w')) = length rs"
    by (simp add: f(2) count_source_events) (simp add: event_of_def status_event_def done_event_def)
  then show ?thesis
    using e f by (simp add: status_event_def done_event_def)
qed

lemma search_env0_default:
  "search env0 (get_query payload_q) (get_search_type payload_q)
     = Inr results0"
  by (simp add: get_query_def get_search_type_def payload_q_def search_def lower_tavily
      search_tavily_env0)

lemma save_world_down:
  "fst (save_query_and_sources env0 (get_query payload_q) results0 (Some ''s1'')
          (graph world_down)) = Inl (Exception ''ServiceUnavailable'')"
  by (simp add: save_query_and_sources_def env0_def world_down_def world0_def db0_def
      session_run_def)

lemma length_results0: "length results0 = 2"
  by (simp add: results0_def)

lemma sources0:
  "map (\<lambda>(k, a). source_event env0 k a) (zip [0, Suc 0] results0)
     = [[(''event'', S ''source''), (''title'', S ''Summary Answer''), (''url'', S []),
         (''snippet'', S ''A''), (''source_id'', S ''01234567'')],
        [(''event'', S ''source''), (''title'', S ''T''), (''url'', S ''http://a''),
         (''snippet'', S []), (''source_id'', S ''01234567'')]]"
  by (simp add: results0_def source_event_def env0_def)

theorem persistence_failure_session_witness:
  "accept_outcome (sockets world_down 0) = None \<and>
   (\<forall>n. send_outcome (sockets world_down 0) n = None) \<and>
   get_query payload_q \<noteq> [] \<and>
   search env0 (get_query payload_q)
     (get_search_type payload_q) = Inr results0 \<and>
   fst (save_query_and_sources env0 (get_query payload_q) results0
          (Some ''s1'') (graph world_down)) = Inl (Exception ''ServiceUnavailable'') \<and>
   fst (websocket_stream_endpoint env0 (Inr payload_q) 0 ''s1'' world_down) = Inr () \<and>
   save_calls (snd (websocket_stream_endpoint env0 (Inr payload_q) 0 ''s1'' world_down))
     = [(''q'', results0, Some ''s1'')] \<and>
   emitted 0 world_down
       (snd (websocket_stream_endpoint env0 (Inr payload_q) 0 ''s1'' world_down))
     = [[(''event'', S ''status''), (''message'', S ''Searching sources...'')],
        [(''event'', S ''source''), (''title'', S ''Summary Answer''), (''url'', S []),
         (''snippet'', S ''A''), (''source_id'', S ''01234567'')],
        [(''event'', S ''source''), (''title'', S ''T''), (''url'', S ''http://a''),
         (''snippet'', S []), (''source_id'', S ''01234567'')],
        [(''event'', S ''done''), (''total_results'', N 2)]] \<and>
   length (filter (\<lambda>m. event_of m = Some (S ''source''))
             (emitted 0 world_down
                (snd (websocket_stream_endpoint env0 (Inr payload_q) 0 ''s1''
                        world_down)))) = 2"
proof -
  have a: "accept_outcome (sockets world_down 0) = None"
    by (simp add: world_down_def world0_def sock0_def)
  have h: "\<forall>n. send_outcome (sockets world_down 0) n = None"
    by (simp add: world_down_def world0_def sock0_def)
  have q: "get_query payload_q \<noteq> []"
    by (simp add: get_query_def payload_q_def)
  have u: "n_uuids world_down = 0" "save_calls world_down = []"
    by (simp_all add: world_down_def world0_def)
  have g: "get_query payload_q = ''q''"
    by (simp add: get_query_def payload_q_def)
  show ?thesis
    using persistence_failure_session [OF a h q search_env0_default save_world_down]
      a h q search_env0_default save_world_down
    by (simp add: u g sources0 length_results0 event_of_def)
qed

lemma endpoint_try_raises:
  assumes b: "endpoint_try e inbound ws sid w = (r, w')"
  shows "active_connections w' = active_connections w \<and>
     (\<exists>ms. outbox (sockets w' ws) = outbox (sockets w ws) @ ms \<and>
           (r \<noteq> Inr () \<longrightarrow> (\<forall>m\<in>set ms. event_of m \<noteq> Some (S ''done''))))"
proof (cases inbound)
  case (Inl x)
  then show ?thesis using b by (simp add: endpoint_try_def)
next
  case (Inr data)
  define qt where "qt = get_query data"
  show ?thesis
  proof (cases "qt = []")
    case True
    then have s: "send_message ws [(''event'', S ''error''),
        (''message'', S ''Query text is required'')] w = (r, w')"
      using b Inr by (simp add: endpoint_try_empty qt_def)
    from send_message_frame [OF s] send_message_outbox [OF s] show ?thesis
      by (cases r) (simp_all add: event_of_def)
  next
    case False
    obtain r1 w1 where s1: "send_message ws status_event w = (r1, w1)"
      by (cases "send_message ws status_event w")
    note f1 = send_message_frame [OF s1] send_message_outbox [OF s1]
    show ?thesis
    proof (cases r1)
      case (Inl y)
      then have "r = Inl y \<and> w' = w1"
        using b Inr False s1 by (simp add: endpoint_try_def qt_def status_event_def)
      then show ?thesis using f1 Inl by (simp add: event_of_def)
    next
      case r1: (Inr u)
      obtain r2 w2 acc2 where
        s2: "search_streaming e qt (get_search_type data)
               (Some (result_callback e ws)) (w1, []) = (r2, (w2, acc2))"
        by (cases "search_streaming e qt (get_search_type data)
               (Some (result_callback e ws)) (w1, [])") auto
      from search_streaming_frame [OF s2] obtain ms2 where
        f2: "active_connections w2 = active_connections w1"
          "outbox (sockets w2 ws) = outbox (sockets w1 ws) @ ms2"
          "\<forall>m\<in>set ms2. event_of m = Some (S ''source'')"
        by blast
      show ?thesis
      proof (cases r2)
        case (Inl y)
        then have s3: "send_message ws [(''event'', S ''error''),
            (''message'', S (''Search failed: '' @ str y))] w2 = (r, w')"
          using b Inr False s1 r1 s2
          by (simp add: endpoint_try_def qt_def status_event_def)
        note f3 = send_message_frame [OF s3] send_message_outbox [OF s3]
        have "outbox (sockets w' ws) = outbox (sockets w ws) @
            ([status_event] @ ms2 @ (case r of Inl _ \<Rightarrow> []
               | Inr _ \<Rightarrow> [[(''event'', S ''error''),
                             (''message'', S (''Search failed: '' @ str y))]]))"
          using f1 f2 f3 r1 by simp
        moreover have "\<forall>m\<in>set ([status_event] @ ms2 @ (case r of Inl _ \<Rightarrow> []
               | Inr _ \<Rightarrow> [[(''event'', S ''error''),
                             (''message'', S (''Search failed: '' @ str y))]])).
             event_of m \<noteq> Some (S ''done'')"
          using f2(3) by (cases r) (auto simp: event_of_def status_event_def)
        ultimately show ?thesis
          using f1 f2 f3 by auto
      next
        case r2: (Inr u2)
        define w4 where "w4 = w2\<lparr>save_calls := save_calls w2 @ [(qt, acc2, Some sid)],
          graph := snd (save_query_and_sources e qt acc2 (Some sid) (graph w2))\<rparr>"
        have s3: "send_message ws (done_event (length acc2)) w4 = (r, w')"
          using b Inr False s1 r1 s2 r2
          by (simp add: endpoint_try_def qt_def status_event_def done_event_def w4_def Let_def)
        note f3 = send_message_frame [OF s3] send_message_outbox [OF s3]
        have "outbox (sockets w' ws) = outbox (sockets w ws) @
            ([status_event] @ ms2 @ (case r of Inl _ \<Rightarrow> []
               | Inr _ \<Rightarrow> [done_event (length acc2)]))"
          using f1 f2 f3 r1 by (simp add: w4_def)
        moreover have "r \<noteq> Inr () \<longrightarrow> (\<forall>m\<in>set ([status_event] @ ms2 @ (case r of Inl _ \<Rightarrow> []
               | Inr _ \<Rightarrow> [done_event (length acc2)])).
             event_of m \<noteq> Some (S ''done''))"
          using f2(3) by (cases r) (auto simp: event_of_def status_event_def)
        moreover have "active_connections w' = active_connections w"
          using f1 f2 f3 by (simp add: w4_def)
        ultimately show ?thesis
          by blast
      qed
    qed
  qed
qed

text \<open>
  C10. In a session whose connection was accepted: when a \<open>done\<close> event is among
  what the session wrote, the registry maps the session id to the session's socket
  after the handler has returned. The registry holds the session id at that point
  exactly when the body of the handler's \<open>try\<close> returned without raising (the
  normal completion and the two early returns); it does not hold it exactly when the
  body raised, which is when one of the two \<open>except\<close> clauses runs
  \<open>disconnect\<close>.
\<close>

theorem registry_after_session:
  assumes a: "accept_outcome (sockets w ws) = None"
  shows "((\<exists>m\<in>set (emitted ws w (snd (websocket_stream_endpoint e inbound ws sid w))).
             event_of m = Some (S ''done'')) \<longrightarrow>
          map_of (active_connections (snd (websocket_stream_endpoint e inbound ws sid w))) sid
            = Some ws) \<and>
         (case fst (endpoint_try e inbound ws sid (snd (connect ws sid w))) of
            Inr _ \<Rightarrow>
              map_of (active_connections (snd (websocket_stream_endpoint e inbound ws sid w))) sid
                = Some ws
          | Inl x \<Rightarrow>
              map_of (active_connections (snd (websocket_stream_endpoint e inbound ws sid w))) sid
                = None)"
proof -
  define w0 where "w0 = w\<lparr>active_connections := AList.update sid ws (active_connections w)\<rparr>"
  obtain r w1 where b: "endpoint_try e inbound ws sid w0 = (r, w1)"
    by (cases "endpoint_try e inbound ws sid w0")
  have c: "snd (connect ws sid w) = w0"
    using a by (simp add: connect_ok w0_def)
  from endpoint_try_raises [OF b] obtain ms1 where
    f: "active_connections w1 = active_connections w0"
      "outbox (sockets w1 ws) = outbox (sockets w ws) @ ms1"
      "r \<noteq> Inr () \<longrightarrow> (\<forall>m\<in>set ms1. event_of m \<noteq> Some (S ''done''))"
    by (auto simp: w0_def)
  from endpoint_wrap [OF a b [unfolded w0_def]]
  obtain w' where w': "websocket_stream_endpoint e inbound ws sid w = (Inr (), w')"
    "case r of Inr _ \<Rightarrow> w' = w1
     | Inl x \<Rightarrow> map_of (active_connections w') sid = None \<and>
         (\<exists>ms. outbox (sockets w' ws) = outbox (sockets w1 ws) @ ms \<and>
               (\<forall>m\<in>set ms. event_of m = Some (S ''error'')))"
    by blast
  have reg: "map_of (active_connections w0) sid = Some ws"
    by (simp add: w0_def update_conv')
  show ?thesis
  proof (cases r)
    case (Inr u)
    then show ?thesis
      using w' f reg b c by simp
  next
    case (Inl x)
    with w'(2) obtain ms2 where
      g: "map_of (active_connections w') sid = None"
        "outbox (sockets w' ws) = outbox (sockets w1 ws) @ ms2"
        "\<forall>m\<in>set ms2. event_of m = Some (S ''error'')"
      by auto
    have "emitted ws w w' = ms1 @ ms2"
      using f(2) g(2) by (simp add: emitted_append)
    moreover have "\<forall>m\<in>set (ms1 @ ms2). event_of m \<noteq> Some (S ''done'')"
      using f(3) g(3) Inl by auto
    ultimately show ?thesis
      using w'(1) g(1) Inl b c by simp
  qed
qed

theorem registry_after_session_witness:
  "accept_outcome (sockets world0 0) = None \<and>
   [(''event'', S ''done''), (''total_results'', N 2)]
     \<in> set (emitted 0 world0
              (snd (websocket_stream_endpoint env0 (Inr payload_q) 0 ''s1'' world0))) \<and>
   event_of [(''event'', S ''done''), (''total_results'', N 2)] = Some (S ''done'') \<and>
   fst (endpoint_try env0 (Inr payload_q) 0 ''s1'' (snd (connect 0 ''s1'' world0)))
     = Inr () \<and>
   map_of (active_connections
             (snd (websocket_stream_endpoint env0 (Inr payload_q) 0 ''s1'' world0)))
     ''s1'' = Some 0"
proof -
  have a: "accept_outcome (sockets world0 0) = None"
    by (simp add: world0_def sock0_def)
  have h: "\<forall>n. send_outcome (sockets world0 0) n = None"
    by (simp add: world0_def sock0_def)
  have q: "get_query payload_q \<noteq> []"
    by (simp add: get_query_def payload_q_def)
  from healthy_session [OF a h q search_env0_default, of "''s1''"]
  have d: "[(''event'', S ''done''), (''total_results'', N 2)]
     \<in> set (emitted 0 world0
              (snd (websocket_stream_endpoint env0 (Inr payload_q) 0 ''s1'' world0)))"
    by (auto simp: done_event_def length_results0)
  have k: "event_of [(''event'', S ''done''), (''total_results'', N 2)] = Some (S ''done'')"
    by (simp add: event_of_def)
  have c: "snd (connect 0 ''s1'' world0)
           = world0\<lparr>active_connections := AList.update ''s1'' 0 (active_connections world0)\<rparr>"
    using a by (simp add: connect_ok)
  have h0: "\<forall>n. send_outcome (sockets (snd (connect 0 ''s1'' world0)) 0) n = None"
    using h by (simp add: c)
  from endpoint_try_success [OF h0 q search_env0_default, of "''s1''"]
  have b: "fst (endpoint_try env0 (Inr payload_q) 0 ''s1'' (snd (connect 0 ''s1'' world0)))
     = Inr ()"
    by auto
  from registry_after_session [OF a, of env0 "Inr payload_q" "''s1''"] d k
  have "map_of (active_connections
             (snd (websocket_stream_endpoint env0 (Inr payload_q) 0 ''s1'' world0)))
     ''s1'' = Some 0"
    by blast
  then show ?thesis
    using a d k b by simp
qed

section \<open>Provider selection\<close>

lemma lower_Bing: "lower ''Bing'' \<noteq> ''serper''"
  by code_simp

lemma lower_SerPer: "lower ''SerPer'' = ''serper''"
  by code_simp

lemma tavily_not_serper: "lower ''tavily'' \<noteq> ''serper''"
  by (simp add: lower_tavily)

lemma search_string_tag:
  "search e q (JStr t) = (if lower t = ''serper'' then search_serper e q else search_tavily e q)"
  by (simp add: search_def)

lemma search_streaming_string_tag:
  "search_streaming e q (JStr t) callback s =
     (case (if lower t = ''serper'' then search_serper e q else search_tavily e q) of
        Inl x \<Rightarrow> (Inl x, s)
      | Inr rs \<Rightarrow> stream_results callback rs s)"
  by (simp add: search_streaming_def)

lemma search_streaming_default:
  "lower t \<noteq> ''serper'' \<Longrightarrow>
   search_streaming e q (JStr t) = search_streaming e q (JStr ''tavily'')"
  by (intro ext) (simp add: search_streaming_string_tag tavily_not_serper)

lemma endpoint_default:
  assumes g: "get_search_type d = JStr t" and n: "lower t \<noteq> ''serper''"
  shows "websocket_stream_endpoint e (Inr d) ws sid w
         = websocket_stream_endpoint e (Inr (d\<lparr>payload_search_type := Some (JStr ''tavily'')\<rparr>))
             ws sid w"
proof -
  have q: "get_query (d\<lparr>payload_search_type := Some (JStr ''tavily'')\<rparr>) = get_query d"
    by (simp add: get_query_def)
  have t: "get_search_type (d\<lparr>payload_search_type := Some (JStr ''tavily'')\<rparr>) = JStr ''tavily''"
    by (simp add: get_search_type_def)
  have eq: "endpoint_try e (Inr d) ws sid
        = endpoint_try e (Inr (d\<lparr>payload_search_type := Some (JStr ''tavily'')\<rparr>)) ws sid"
    unfolding endpoint_try_def Let_def sum.case q t g search_streaming_default [OF n]
    by (rule refl)
  show ?thesis
    unfolding websocket_stream_endpoint_def eq by (rule refl)
qed

text \<open>
  C6, amended. The provider is chosen by the lower-cased string tag. A string tag that
  lower-cases to \<open>serper\<close> makes \<open>search\<close> the second adapter's fetch and
  \<open>search_streaming\<close> the callback loop over that fetch. Every other string tag
  makes them the first adapter's fetch and the loop over it, which is what the tag
  \<open>tavily\<close> gives. A session whose payload has no \<open>search_type\<close>, or a
  string one that does not lower-case to \<open>serper\<close>, runs exactly as the session
  whose payload says \<open>tavily\<close>; over a transport that accepts the connection and
  every write, with a non-empty query for which the first adapter returns
  \<open>found\<close>, it writes the \<open>status\<close> event, one \<open>source\<close> event per
  result of \<open>found\<close> and the \<open>done\<close> event.
\<close>

theorem provider_selection:
  "(lower t = ''serper'' \<longrightarrow>
      search e query (JStr t) = search_serper e query \<and>
      search_streaming e query (JStr t) callback s =
        (case search_serper e query of
           Inl x \<Rightarrow> (Inl x, s)
         | Inr rs \<Rightarrow> stream_results callback rs s)) \<and>
   (lower t \<noteq> ''serper'' \<longrightarrow>
      search e query (JStr t) = search_tavily e query \<and>
      search_streaming e query (JStr t) callback s =
        (case search_tavily e query of
           Inl x \<Rightarrow> (Inl x, s)
         | Inr rs \<Rightarrow> stream_results callback rs s) \<and>
      search e query (JStr t) = search e query (JStr ''tavily'') \<and>
      search_streaming e query (JStr t) callback s
        = search_streaming e query (JStr ''tavily'') callback s) \<and>
   (payload_search_type data = None \<or>
    (payload_search_type data = Some (JStr t) \<and> lower t \<noteq> ''serper'') \<longrightarrow>
      websocket_stream_endpoint e (Inr data) ws session_id w
        = websocket_stream_endpoint e
            (Inr (data\<lparr>payload_search_type := Some (JStr ''tavily'')\<rparr>)) ws session_id w \<and>
      (accept_outcome (sockets w ws) = None \<and>
       (\<forall>n. send_outcome (sockets w ws) n = None) \<and>
       get_query data \<noteq> [] \<and>
       search_tavily e (get_query data) = Inr found \<longrightarrow>
         emitted ws w (snd (websocket_stream_endpoint e (Inr data) ws session_id w)) =
           [(''event'', S ''status''), (''message'', S ''Searching sources...'')] #
           map (\<lambda>(k, a). source_event e k a)
               (zip [n_uuids w..<n_uuids w + length found] found) @
           [[(''event'', S ''done''), (''total_results'', N (int (length found)))]]))"
proof (intro conjI impI)
  assume "lower t = ''serper''"
  then show "search e query (JStr t) = search_serper e query"
    and "search_streaming e query (JStr t) callback s =
        (case search_serper e query of
           Inl x \<Rightarrow> (Inl x, s)
         | Inr rs \<Rightarrow> stream_results callback rs s)"
    by (simp_all add: search_string_tag search_streaming_string_tag)
next
  assume n: "lower t \<noteq> ''serper''"
  then show "search e query (JStr t) = search_tavily e query"
    and "search_streaming e query (JStr t) callback s =
        (case search_tavily e query of
           Inl x \<Rightarrow> (Inl x, s)
         | Inr rs \<Rightarrow> stream_results callback rs s)"
    and "search e query (JStr t) = search e query (JStr ''tavily'')"
    by (simp_all add: search_string_tag search_streaming_string_tag tavily_not_serper)
  show "search_streaming e query (JStr t) callback s
        = search_streaming e query (JStr ''tavily'') callback s"
    by (simp add: search_streaming_default [OF n])
next
  assume a: "payload_search_type data = None \<or>
    (payload_search_type data = Some (JStr t) \<and> lower t \<noteq> ''serper'')"
  then obtain t' where g: "get_search_type data = JStr t'" and n: "lower t' \<noteq> ''serper''"
    using tavily_not_serper by (auto simp: get_search_type_def)
  show "websocket_stream_endpoint e (Inr data) ws session_id w
        = websocket_stream_endpoint e
            (Inr (data\<lparr>payload_search_type := Some (JStr ''tavily'')\<rparr>)) ws session_id w"
    by (rule endpoint_default [OF g n])
  assume h: "accept_outcome (sockets w ws) = None \<and>
       (\<forall>n. send_outcome (sockets w ws) n = None) \<and>
       get_query data \<noteq> [] \<and>
       search_tavily e (get_query data) = Inr found"
  then have sr: "search e (get_query data) (get_search_type data) = Inr found"
    using g n by (simp add: search_string_tag)
  from h have h1: "accept_outcome (sockets w ws) = None"
    and h2: "\<forall>n. send_outcome (sockets w ws) n = None"
    and h3: "get_query data \<noteq> []"
    by simp_all
  from healthy_session [OF h1 h2 h3 sr, where sid = session_id]
  show "emitted ws w (snd (websocket_stream_endpoint e (Inr data) ws session_id w)) =
           [(''event'', S ''status''), (''message'', S ''Searching sources...'')] #
           map (\<lambda>(k, a). source_event e k a)
               (zip [n_uuids w..<n_uuids w + length found] found) @
           [[(''event'', S ''done''), (''total_results'', N (int (length found)))]]"
    by (auto simp: status_event_def done_event_def)
qed

lemma world0_healthy:
  "accept_outcome (sockets world0 0) = None"
  "\<forall>n. send_outcome (sockets world0 0) n = None"
  "n_uuids world0 = 0"
  by (simp_all add: world0_def sock0_def)

theorem provider_selection_witness:
  "lower ''SerPer'' = ''serper'' \<and>
   search env0 ''q'' (JStr ''SerPer'') = search_serper env0 ''q'' \<and>
   search_streaming env0 ''q'' (JStr ''SerPer'') (Some record_call) [] =
     (case search_serper env0 ''q'' of
        Inl x \<Rightarrow> (Inl x, [])
      | Inr rs \<Rightarrow> stream_results (Some record_call) rs []) \<and>
   lower ''Bing'' \<noteq> ''serper'' \<and>
   search env0 ''q'' (JStr ''Bing'') = search_tavily env0 ''q'' \<and>
   search env0 ''q'' (JStr ''Bing'') = search env0 ''q'' (JStr ''tavily'') \<and>
   search_streaming env0 ''q'' (JStr ''Bing'') (Some record_call) []
     = search_streaming env0 ''q'' (JStr ''tavily'') (Some record_call) [] \<and>
   payload_search_type payload_Bing = Some (JStr ''Bing'') \<and>
   websocket_stream_endpoint env0 (Inr payload_Bing) 0 ''s1'' world0
     = websocket_stream_endpoint env0
         (Inr (payload_Bing\<lparr>payload_search_type := Some (JStr ''tavily'')\<rparr>)) 0 ''s1'' world0 \<and>
   accept_outcome (sockets world0 0) = None \<and>
   (\<forall>n. send_outcome (sockets world0 0) n = None) \<and>
   get_query payload_Bing \<noteq> [] \<and>
   search_tavily env0 (get_query payload_Bing) = Inr results0 \<and>
   emitted 0 world0 (snd (websocket_stream_endpoint env0 (Inr payload_Bing) 0 ''s1'' world0))
     = [[(''event'', S ''status''), (''message'', S ''Searching sources...'')],
        [(''event'', S ''source''), (''title'', S ''Summary Answer''), (''url'', S []),
         (''snippet'', S ''A''), (''source_id'', S ''01234567'')],
        [(''event'', S ''source''), (''title'', S ''T''), (''url'', S ''http://a''),
         (''snippet'', S []), (''source_id'', S ''01234567'')],
        [(''event'', S ''done''), (''total_results'', N 2)]]"
proof -
  have p: "payload_search_type payload_Bing = Some (JStr ''Bing'')"
    "get_query payload_Bing = ''q''"
    by (simp_all add: payload_Bing_def get_query_def)
  have q: "get_query payload_Bing \<noteq> []"
    by (simp add: p)
  have f: "search_tavily env0 (get_query payload_Bing) = Inr results0"
    by (simp add: p search_tavily_env0)
  note t1 = provider_selection [where t = "''SerPer''" and e = env0 and query = "''q''"
      and callback = "Some record_call" and s = "[]"]
  note t2 = provider_selection [where t = "''Bing''" and e = env0 and query = "''q''"
      and callback = "Some record_call" and s = "[]" and data = payload_Bing and ws = 0
      and session_id = "''s1''" and w = world0 and found = results0]
  have a: "search env0 ''q'' (JStr ''SerPer'') = search_serper env0 ''q'' \<and>
      search_streaming env0 ''q'' (JStr ''SerPer'') (Some record_call) [] =
        (case search_serper env0 ''q'' of
           Inl x \<Rightarrow> (Inl x, [])
         | Inr rs \<Rightarrow> stream_results (Some record_call) rs [])"
    using t1 lower_SerPer by blast
  have b: "search env0 ''q'' (JStr ''Bing'') = search_tavily env0 ''q'' \<and>
      search env0 ''q'' (JStr ''Bing'') = search env0 ''q'' (JStr ''tavily'') \<and>
      search_streaming env0 ''q'' (JStr ''Bing'') (Some record_call) []
        = search_streaming env0 ''q'' (JStr ''tavily'') (Some record_call) []"
    using t2 lower_Bing by blast
  have c: "websocket_stream_endpoint env0 (Inr payload_Bing) 0 ''s1'' world0
     = websocket_stream_endpoint env0
         (Inr (payload_Bing\<lparr>payload_search_type := Some (JStr ''tavily'')\<rparr>)) 0 ''s1'' world0"
    using t2 lower_Bing p(1) by blast
  have "emitted 0 world0 (snd (websocket_stream_endpoint env0 (Inr payload_Bing) 0 ''s1'' world0))
     = [(''event'', S ''status''), (''message'', S ''Searching sources...'')] #
       map (\<lambda>(k, a). source_event env0 k a)
           (zip [n_uuids world0..<n_uuids world0 + length results0] results0) @
       [[(''event'', S ''done''), (''total_results'', N (int (length results0)))]]"
    using t2 lower_Bing p(1) world0_healthy(1,2) q f by blast
  then have d: "emitted 0 world0
       (snd (websocket_stream_endpoint env0 (Inr payload_Bing) 0 ''s1'' world0))
     = [[(''event'', S ''status''), (''message'', S ''Searching sources...'')],
        [(''event'', S ''source''), (''title'', S ''Summary Answer''), (''url'', S []),
         (''snippet'', S ''A''), (''source_id'', S ''01234567'')],
        [(''event'', S ''source''), (''title'', S ''T''), (''url'', S ''http://a''),
         (''snippet'', S []), (''source_id'', S ''01234567'')],
        [(''event'', S ''done''), (''total_results'', N 2)]]"
    by (simp add: world0_healthy(3) length_results0 sources0)
  show ?thesis
    by (intro conjI)
       (use a b c d p(1) q f lower_SerPer lower_Bing world0_healthy(1,2) in blast)+
qed

lemma search_null:
  "search e q JNull
     = Inl (Exception (quoted ''NoneType'' @ '' object has no attribute '' @ quoted ''lower''))"
  by (simp add: search_def)

lemma null_session:
  "emitted 0 world0 (snd (websocket_stream_endpoint env0 (Inr payload_null) 0 ''s1'' world0))
     = [[(''event'', S ''status''), (''message'', S ''Searching sources...'')],
        [(''event'', S ''error''),
         (''message'', S (''Search failed: '' @ quoted ''NoneType''
                           @ '' object has no attribute '' @ quoted ''lower''))]]"
  by (simp add: websocket_stream_endpoint_def connect_def endpoint_try_def Let_def
      send_message_def send_text_def search_streaming_def get_query_def get_search_type_def
      payload_null_def world0_def sock0_def emitted_def)

lemma tavily_session:
  "emitted 0 world0 (snd (websocket_stream_endpoint env0 (Inr payload_tavily) 0 ''s1'' world0))
     = [[(''event'', S ''status''), (''message'', S ''Searching sources...'')],
        [(''event'', S ''source''), (''title'', S ''Summary Answer''), (''url'', S []),
         (''snippet'', S ''A''), (''source_id'', S ''01234567'')],
        [(''event'', S ''source''), (''title'', S ''T''), (''url'', S ''http://a''),
         (''snippet'', S []), (''source_id'', S ''01234567'')],
        [(''event'', S ''done''), (''total_results'', N 2)]]"
proof -
  have q: "get_query payload_tavily \<noteq> []"
    by (simp add: get_query_def payload_tavily_def)
  have sr: "search env0 (get_query payload_tavily) (get_search_type payload_tavily) = Inr results0"
    by (simp add: get_query_def get_search_type_def payload_tavily_def search_string_tag
        tavily_not_serper search_tavily_env0)
  from healthy_session [OF world0_healthy(1,2) q sr, where sid = "''s1''"]
  show ?thesis
    by (auto simp: status_event_def done_event_def world0_healthy(3) length_results0 sources0)
qed

text \<open>
  C6, as stated, fails for a \<open>search_type\<close> that is present and not a string. With
  the tag \<open>null\<close> the call \<open>search_type.lower()\<close> raises: \<open>search\<close>
  raises instead of fetching from the first adapter, and the session ends with a
  \<open>Search failed\<close> event where the session with the tag \<open>tavily\<close> streams
  two sources and ends with \<open>done\<close>.
\<close>

theorem null_search_type_counterexample:
  "search env0 ''q'' (JStr ''tavily'') = Inr results0 \<and>
   search env0 ''q'' JNull
     = Inl (Exception (quoted ''NoneType'' @ '' object has no attribute '' @ quoted ''lower'')) \<and>
   emitted 0 world0 (snd (websocket_stream_endpoint env0 (Inr payload_tavily) 0 ''s1'' world0))
     = [[(''event'', S ''status''), (''message'', S ''Searching sources...'')],
        [(''event'', S ''source''), (''title'', S ''Summary Answer''), (''url'', S []),
         (''snippet'', S ''A''), (''source_id'', S ''01234567'')],
        [(''event'', S ''source''), (''title'', S ''T''), (''url'', S ''http://a''),
         (''snippet'', S []), (''source_id'', S ''01234567'')],
        [(''event'', S ''done''), (''total_results'', N 2)]] \<and>
   emitted 0 world0 (snd (websocket_stream_endpoint env0 (Inr payload_null) 0 ''s1'' world0))
     = [[(''event'', S ''status''), (''message'', S ''Searching sources...'')],
        [(''event'', S ''error''),
         (''message'', S (''Search failed: '' @ quoted ''NoneType''
                           @ '' object has no attribute '' @ quoted ''lower''))]] \<and>
   websocket_stream_endpoint env0 (Inr payload_null) 0 ''s1'' world0
     \<noteq> websocket_stream_endpoint env0 (Inr payload_tavily) 0 ''s1'' world0"
proof -
  have s: "search env0 ''q'' (JStr ''tavily'') = Inr results0"
    by (simp add: search_string_tag tavily_not_serper search_tavily_env0)
  have "emitted 0 world0 (snd (websocket_stream_endpoint env0 (Inr payload_null) 0 ''s1'' world0))
     \<noteq> emitted 0 world0
         (snd (websocket_stream_endpoint env0 (Inr payload_tavily) 0 ''s1'' world0))"
    by (simp add: null_session tavily_session)
  then have "websocket_stream_endpoint env0 (Inr payload_null) 0 ''s1'' world0
     \<noteq> websocket_stream_endpoint env0 (Inr payload_tavily) 0 ''s1'' world0"
    by auto
  then show ?thesis
    using s search_null [of env0 "''q''"] null_session tavily_session by simp
qed

section \<open>The registry's broadcast\<close>

text \<open>
  C8. \<open>broadcast\<close> on a registry of two sessions whose first socket reports a
  disconnect during the write: the first entry is removed, the iterator then raises
  \<open>RuntimeError\<close>, which \<open>broadcast\<close> does not catch, and the second socket
  is never written.
\<close>

theorem broadcast_disconnect_raises:
  "fst (broadcast status_event world_bc)
     = Inl (RuntimeError ''dictionary changed size during iteration'') \<and>
   active_connections (snd (broadcast status_event world_bc)) = [(''b'', Suc 0)] \<and>
   outbox (sockets (snd (broadcast status_event world_bc)) (Suc 0)) = []"
  by (simp add: broadcast_def world_bc_def world0_def sock0_def sock_gone_def send_text_def
      disconnect_def Let_def)

section \<open>The graph service at startup\<close>

text \<open>
  C4, as stated, fails. With the driver package present and a store that refuses every
  statement, the startup handler raises the store's exception, and afterwards both
  \<open>save_query_and_sources\<close> and \<open>get_query_history\<close> raise it too: the
  service is in no no-op mode.
\<close>

theorem unreachable_store_counterexample:
  "NEO4J_AVAILABLE env0 \<and>
   fst (startup_event env0 world_cold) = Inl (Exception ''ServiceUnavailable'') \<and>
   fst (save_query_and_sources env0 ''q'' results0 None
          (graph (snd (startup_event env0 world_cold))))
     = Inl (Exception ''ServiceUnavailable'') \<and>
   fst (get_query_history env0 10 (graph (snd (startup_event env0 world_cold))))
     = Inl (Exception ''ServiceUnavailable'')"
  by (simp add: startup_event_def GraphService_connect_def env0_def world_cold_def world0_def
      db0_def session_run_def save_query_and_sources_def get_query_history_def Let_def)

text \<open>
  C4, amended. The no-op mode is the mode of a process without the driver package
  (\<open>NEO4J_AVAILABLE\<close> false): there \<open>connect\<close> and the startup handler return
  and change nothing, \<open>save_query_and_sources\<close> returns and changes nothing, and
  \<open>get_query_history\<close> returns the empty list. With the package present and the
  store unreachable at startup (the driver cannot be made, or the test statement
  raises), \<open>connect\<close> raises and the startup handler lets the exception through.
\<close>

theorem mock_mode:
  "(\<not> NEO4J_AVAILABLE e \<longrightarrow>
      GraphService_connect e g = (Inr (), g) \<and>
      startup_event e w = (Inr (), w) \<and>
      save_query_and_sources e query_text search_results session_id g = (Inr (), g) \<and>
      get_query_history e limit g = (Inr [], g)) \<and>
   (NEO4J_AVAILABLE e \<and> AsyncGraphDatabase_driver e = Some x \<longrightarrow>
      fst (GraphService_connect e g) = Inl x \<and> fst (startup_event e w) = Inl x) \<and>
   (NEO4J_AVAILABLE e \<and> AsyncGraphDatabase_driver e = None \<and>
    run_outcomes (store (graph w)) (n_runs (store (graph w))) = Fails x \<longrightarrow>
      fst (startup_event e w) = Inl x)"
  by (simp add: GraphService_connect_def startup_event_def save_query_and_sources_def
      get_query_history_def session_run_def Let_def)

theorem mock_mode_witness:
  "\<not> NEO4J_AVAILABLE env_mock \<and>
   GraphService_connect env_mock (graph world_cold) = (Inr (), graph world_cold) \<and>
   startup_event env_mock world_cold = (Inr (), world_cold) \<and>
   save_query_and_sources env_mock ''q'' results0 (Some ''s1'') (graph world_cold)
     = (Inr (), graph world_cold) \<and>
   get_query_history env_mock 10 (graph world_cold) = (Inr [], graph world_cold) \<and>
   NEO4J_AVAILABLE env0 \<and> AsyncGraphDatabase_driver env0 = None \<and>
   run_outcomes (store (graph world_cold)) (n_runs (store (graph world_cold)))
     = Fails (Exception ''ServiceUnavailable'') \<and>
   fst (startup_event env0 world_cold) = Inl (Exception ''ServiceUnavailable'')"
proof -
  have m: "\<not> NEO4J_AVAILABLE env_mock"
    by (simp add: env_mock_def env0_def)
  have a: "NEO4J_AVAILABLE env0" "AsyncGraphDatabase_driver env0 = None"
    by (simp_all add: env0_def)
  have r: "run_outcomes (store (graph world_cold)) (n_runs (store (graph world_cold)))
     = Fails (Exception ''ServiceUnavailable'')"
    by (simp add: world_cold_def world0_def db0_def)
  show ?thesis
    using mock_mode [of env_mock "graph world_cold" world_cold "''q''" results0 "Some ''s1''" 10
        "Exception ''ServiceUnavailable''"]
      mock_mode [of env0 "graph world_cold" world_cold "''q''" results0 "Some ''s1''" 10
        "Exception ''ServiceUnavailable''"]
      m a r
    by simp
qed

section \<open>The graph store\<close>

lemma strip_empty_iff: "strip s = [] \<longleftrightarrow> (\<forall>c\<in>set s. isspace c)"
proof -
  have "strip s = [] \<longleftrightarrow> (\<forall>c\<in>set (dropWhile isspace s). isspace c)"
    by (simp add: strip_def dropWhile_eq_Nil_conv)
  also have "\<dots> \<longleftrightarrow> dropWhile isspace s = []"
  proof
    assume a: "\<forall>c\<in>set (dropWhile isspace s). isspace c"
    show "dropWhile isspace s = []"
    proof (rule ccontr)
      assume n: "dropWhile isspace s \<noteq> []"
      then have "\<not> isspace (hd (dropWhile isspace s))" by (rule hd_dropWhile)
      moreover have "hd (dropWhile isspace s) \<in> set (dropWhile isspace s)"
        using n by simp
      ultimately show False using a by blast
    qed
  qed (auto dest: set_dropWhileD)
  also have "\<dots> \<longleftrightarrow> (\<forall>c\<in>set s. isspace c)"
    by (simp add: dropWhile_eq_Nil_conv)
  finally show ?thesis .
qed

lemma session_run_cases:
  obtains (fails) x where "run_outcomes db (n_runs db) = Fails x"
    and "session_run st db = (Inl x, db\<lparr>n_runs := Suc (n_runs db)\<rparr>)"
  | (runs) now where "run_outcomes db (n_runs db) = Runs now"
    and "session_run st db = (Inr (), st now (db\<lparr>n_runs := Suc (n_runs db)\<rparr>))"
  by (cases "run_outcomes db (n_runs db)") (simp_all add: session_run_def Let_def)

lemma keys_merge_query:
  "map q_text (queries (merge_query t sid now db)) =
     (if t \<in> set (map q_text (queries db)) then map q_text (queries db)
      else map q_text (queries db) @ [t])"
  by (auto simp: merge_query_def Let_def o_def intro!: map_cong)

lemma keys_merge_source:
  "map s_url (sources (merge_source r now db)) =
     (if url r \<in> set (map s_url (sources db)) then map s_url (sources db)
      else map s_url (sources db) @ [url r])"
  by (auto simp: merge_source_def Let_def o_def intro!: map_cong)

lemma query_count_merge_query:
  "query_count (merge_query t sid now db) x =
     (if x = t \<and> query_count db t = 0 then 1 else query_count db x)"
  by (auto simp: query_count_def keys_merge_query count_list_0_iff)

lemma source_count_merge_source:
  "source_count (merge_source r now db) x =
     (if x = url r \<and> source_count db (url r) = 0 then 1 else source_count db x)"
  by (auto simp: source_count_def keys_merge_source count_list_0_iff)

lemma merge_frames:
  "sources (merge_query t sid now db) = sources db"
  "references (merge_query t sid now db) = references db"
  "queries (merge_source r now db) = queries db"
  "references (merge_source r now db) = references db"
  "queries (merge_references t u now db) = queries db"
  "sources (merge_references t u now db) = sources db"
  by (simp_all add: merge_query_def merge_source_def merge_references_def Let_def)

lemma count_frames:
  "source_count (merge_query t sid now db) = source_count db"
  "query_count (merge_source r now db) = query_count db"
  "query_count (merge_references t u now db) = query_count db"
  "source_count (merge_references t u now db) = source_count db"
  "query_count (db\<lparr>n_runs := k\<rparr>) = query_count db"
  "source_count (db\<lparr>n_runs := k\<rparr>) = source_count db"
  by (simp_all add: fun_eq_iff query_count_def source_count_def merge_frames)

lemma save_sources_counts:
  "save_sources q rs db = (res, db') \<Longrightarrow>
     query_count db' = query_count db \<and>
     (\<forall>x. source_count db' x = source_count db x \<or>
          (source_count db x = 0 \<and> source_count db' x = 1)) \<and>
     (\<forall>x. (\<forall>r\<in>set rs. strip (url r) \<noteq> [] \<longrightarrow> url r \<noteq> x) \<longrightarrow>
          source_count db' x = source_count db x) \<and>
     (res = Inr () \<longrightarrow> (\<forall>r\<in>set rs. strip (url r) \<noteq> [] \<longrightarrow> 1 \<le> source_count db' (url r)))"
proof (induction rs arbitrary: db)
  case Nil
  then show ?case by simp
next
  case (Cons r rs)
  show ?case
  proof (cases "strip (url r) = []")
    case True
    then have "save_sources q rs db = (res, db')"
      using Cons.prems by simp
    from Cons.IH [OF this] True show ?thesis by simp
  next
    case False
    show ?thesis
    proof (cases rule: session_run_cases [where st = "merge_source r" and db = db])
      case (fails x)
      then show ?thesis
        using Cons.prems False by (auto simp: count_frames)
    next
      case (runs now)
      define db1 where "db1 = merge_source r now (db\<lparr>n_runs := Suc (n_runs db)\<rparr>)"
      have c1: "query_count db1 = query_count db"
        "\<And>x. source_count db1 x =
           (if x = url r \<and> source_count db (url r) = 0 then 1 else source_count db x)"
        by (simp_all add: db1_def count_frames source_count_merge_source)
      show ?thesis
      proof (cases rule: session_run_cases [where st = "merge_references q (url r)" and db = db1])
        case (fails y)
        then have "res = Inl y" "db' = db1\<lparr>n_runs := Suc (n_runs db1)\<rparr>"
          using Cons.prems False runs by (simp_all add: db1_def)
        then show ?thesis
          using c1 False by (auto simp: count_frames)
      next
        case r2: (runs now2)
        define db2 where "db2 = merge_references q (url r) now2 (db1\<lparr>n_runs := Suc (n_runs db1)\<rparr>)"
        have c2: "query_count db2 = query_count db"
          "\<And>x. source_count db2 x =
             (if x = url r \<and> source_count db (url r) = 0 then 1 else source_count db x)"
          using c1 by (simp_all add: db2_def count_frames)
        have "save_sources q rs db2 = (res, db')"
          using Cons.prems False runs r2 by (simp add: db1_def db2_def)
        note ih = Cons.IH [OF this]
        have p1: "query_count db' = query_count db"
          using ih c2 by simp
        have p2: "source_count db' x = source_count db x \<or>
                  (source_count db x = 0 \<and> source_count db' x = 1)" for x
          using ih c2(2) [of x] by (metis One_nat_def zero_neq_one)
        have p3: "source_count db' x = source_count db x"
          if "\<forall>r'\<in>set (r # rs). strip (url r') \<noteq> [] \<longrightarrow> url r' \<noteq> x" for x
          using ih c2(2) [of x] that False by auto
        have p4: "1 \<le> source_count db' (url r')"
          if "res = Inr ()" "r' \<in> set (r # rs)" "strip (url r') \<noteq> []" for r'
        proof (cases "r' = r")
          case True
          have "1 \<le> source_count db2 (url r)"
            using c2(2) [of "url r"] by auto
          moreover have "source_count db' (url r) = source_count db2 (url r) \<or>
                  (source_count db2 (url r) = 0 \<and> source_count db' (url r) = 1)"
            using ih by blast
          ultimately show ?thesis using True by auto
        next
          case False
          then show ?thesis using ih that by auto
        qed
        show ?thesis
          using p1 p2 p3 p4 by blast
      qed
    qed
  qed
qed

lemma save_sources_filter:
  "save_sources q rs db = save_sources q (filter (\<lambda>r. strip (url r) \<noteq> []) rs) db"
  by (induction rs arbitrary: db) (simp_all cong: prod.case_cong sum.case_cong)

lemma save_query_and_sources_counts:
  assumes s: "save_query_and_sources e q rs sid g = (res, g')"
  shows "(\<forall>x. query_count (store g') x = query_count (store g) x \<or>
              (query_count (store g) x = 0 \<and> query_count (store g') x = 1)) \<and>
         (\<forall>x. source_count (store g') x = source_count (store g) x \<or>
              (source_count (store g) x = 0 \<and> source_count (store g') x = 1)) \<and>
         (\<forall>x. (\<forall>r\<in>set rs. strip (url r) \<noteq> [] \<longrightarrow> url r \<noteq> x) \<longrightarrow>
              source_count (store g') x = source_count (store g) x) \<and>
         (NEO4J_AVAILABLE e \<and> res = Inr () \<longrightarrow>
            1 \<le> query_count (store g') q \<and>
            (\<forall>r\<in>set rs. strip (url r) \<noteq> [] \<longrightarrow> 1 \<le> source_count (store g') (url r)))"
proof (cases "NEO4J_AVAILABLE e \<and> driver g \<noteq> None")
  case False
  then show ?thesis
    using s by (auto simp: save_query_and_sources_def split: if_splits)
next
  case True
  define sid' where "sid' = (if truthy sid then sid else None)"
  show ?thesis
  proof (cases rule: session_run_cases [where st = "merge_query q sid'" and db = "store g"])
    case (fails x)
    then have "res = Inl x" "store g' = (store g)\<lparr>n_runs := Suc (n_runs (store g))\<rparr>"
      using s True by (auto simp: save_query_and_sources_def sid'_def)
    then show ?thesis by (simp add: count_frames)
  next
    case (runs now)
    define db1 where "db1 = merge_query q sid' now ((store g)\<lparr>n_runs := Suc (n_runs (store g))\<rparr>)"
    have c1: "source_count db1 = source_count (store g)"
      "\<And>x. query_count db1 x =
         (if x = q \<and> query_count (store g) q = 0 then 1 else query_count (store g) x)"
      by (simp_all add: db1_def count_frames query_count_merge_query)
    obtain db2 where l: "save_sources q rs db1 = (res, db2)" and g': "store g' = db2"
      using s True runs
      by (cases "save_sources q rs db1")
         (auto simp: save_query_and_sources_def sid'_def db1_def)
    note f = save_sources_counts [OF l]
    have "1 \<le> query_count db1 q"
      using c1(2) [of q] by auto
    then show ?thesis
      using f c1 g' by auto
  qed
qed

text \<open>
  C5. Two calls of \<open>save_query_and_sources\<close>, one after the other, with the
  driver package present; their query texts may be the same text or two texts. When
  both return normally: a store that held at most one \<open>Query\<close> record with the
  text of either call holds exactly one afterwards (so one record for both calls when
  the text is the same), and for every result of either call whose URL is not blank, a store that held at most
  one \<open>Source\<close> record with that URL holds exactly one afterwards, however many
  results carry the URL. Whatever the two calls do, the number of \<open>Source\<close>
  records with the empty URL is what it was before them.
\<close>

theorem merge_records:
  "let g1 = snd (save_query_and_sources e query_text rs1 sid1 g);
       g2 = snd (save_query_and_sources e query_text' rs2 sid2 g1)
   in (NEO4J_AVAILABLE e \<and>
       fst (save_query_and_sources e query_text rs1 sid1 g) = Inr () \<and>
       fst (save_query_and_sources e query_text' rs2 sid2 g1) = Inr () \<longrightarrow>
         (query_count (store g) query_text \<le> 1 \<longrightarrow> query_count (store g2) query_text = 1) \<and>
         (query_count (store g) query_text' \<le> 1 \<longrightarrow>
            query_count (store g2) query_text' = 1) \<and>
         (\<forall>r\<in>set rs1 \<union> set rs2.
            strip (url r) \<noteq> [] \<and> source_count (store g) (url r) \<le> 1 \<longrightarrow>
              source_count (store g2) (url r) = 1)) \<and>
      source_count (store g2) [] = source_count (store g) []"
proof -
  obtain res1 g1 where s1: "save_query_and_sources e query_text rs1 sid1 g = (res1, g1)"
    by (cases "save_query_and_sources e query_text rs1 sid1 g")
  obtain res2 g2 where s2: "save_query_and_sources e query_text' rs2 sid2 g1 = (res2, g2)"
    by (cases "save_query_and_sources e query_text' rs2 sid2 g1")
  note f1 = save_query_and_sources_counts [OF s1]
  note f2 = save_query_and_sources_counts [OF s2]
  have blank: "strip [] = []"
    by (simp add: strip_def)
  have p3: "source_count (store g2) [] = source_count (store g) []"
  proof -
    have "source_count (store g1) [] = source_count (store g) []"
      using f1 blank by (metis (no_types, lifting))
    moreover have "source_count (store g2) [] = source_count (store g1) []"
      using f2 blank by (metis (no_types, lifting))
    ultimately show ?thesis by simp
  qed
  have p1: "query_count (store g2) query_text = 1"
    if "NEO4J_AVAILABLE e" "res1 = Inr ()" "res2 = Inr ()"
      "query_count (store g) query_text \<le> 1"
  proof -
    have "query_count (store g1) query_text = 1"
      using f1 that by (metis le_antisym)
    moreover have "query_count (store g2) query_text = query_count (store g1) query_text \<or>
        (query_count (store g1) query_text = 0 \<and> query_count (store g2) query_text = 1)"
      using f2 by blast
    ultimately show ?thesis by auto
  qed
  have p1': "query_count (store g2) query_text' = 1"
    if "NEO4J_AVAILABLE e" "res1 = Inr ()" "res2 = Inr ()"
      "query_count (store g) query_text' \<le> 1"
  proof -
    have "query_count (store g1) query_text' = query_count (store g) query_text' \<or>
        (query_count (store g) query_text' = 0 \<and> query_count (store g1) query_text' = 1)"
      using f1 by blast
    then have "query_count (store g1) query_text' \<le> 1"
      using that(4) by auto
    moreover have "1 \<le> query_count (store g2) query_text'"
      using f2 that by blast
    moreover have "query_count (store g2) query_text' = query_count (store g1) query_text' \<or>
        (query_count (store g1) query_text' = 0 \<and> query_count (store g2) query_text' = 1)"
      using f2 by blast
    ultimately show ?thesis by auto
  qed
  have p2: "source_count (store g2) (url r) = 1"
    if "NEO4J_AVAILABLE e" "res1 = Inr ()" "res2 = Inr ()" "r \<in> set rs1 \<union> set rs2"
      "strip (url r) \<noteq> []" "source_count (store g) (url r) \<le> 1" for r
  proof -
    have a: "source_count (store g1) (url r) = source_count (store g) (url r) \<or>
        (source_count (store g) (url r) = 0 \<and> source_count (store g1) (url r) = 1)"
      using f1 by blast
    have b: "source_count (store g2) (url r) = source_count (store g1) (url r) \<or>
        (source_count (store g1) (url r) = 0 \<and> source_count (store g2) (url r) = 1)"
      using f2 by blast
    have c: "r \<in> set rs1 \<Longrightarrow> 1 \<le> source_count (store g1) (url r)"
      using f1 that by blast
    have d: "r \<in> set rs2 \<Longrightarrow> 1 \<le> source_count (store g2) (url r)"
      using f2 that by blast
    show ?thesis
      using a b c d that(4,6) by auto
  qed
  show ?thesis
    using p1 p1' p2 p3 by (simp add: s1 s2 Let_def)
qed

lemma run_outcomes_frames:
  "run_outcomes (merge_query t sid now db) = run_outcomes db"
  "run_outcomes (merge_source r now db) = run_outcomes db"
  "run_outcomes (merge_references t u now db) = run_outcomes db"
  by (simp_all add: merge_query_def merge_source_def merge_references_def Let_def)

lemma save_sources_up:
  "\<forall>n x. run_outcomes db n \<noteq> Fails x \<Longrightarrow>
   fst (save_sources q rs db) = Inr () \<and>
   run_outcomes (snd (save_sources q rs db)) = run_outcomes db"
proof (induction rs arbitrary: db)
  case Nil
  then show ?case by simp
next
  case (Cons r rs)
  show ?case
  proof (cases "strip (url r) = []")
    case True
    then show ?thesis using Cons by simp
  next
    case False
    show ?thesis
    proof (cases rule: session_run_cases [where st = "merge_source r" and db = db])
      case (fails x)
      then show ?thesis using Cons.prems by simp
    next
      case (runs now)
      define db1 where "db1 = merge_source r now (db\<lparr>n_runs := Suc (n_runs db)\<rparr>)"
      have o1: "run_outcomes db1 = run_outcomes db"
        by (simp add: db1_def run_outcomes_frames)
      show ?thesis
      proof (cases rule: session_run_cases [where st = "merge_references q (url r)" and db = db1])
        case (fails y)
        then show ?thesis using Cons.prems o1 by simp
      next
        case r2: (runs now2)
        define db2 where
          "db2 = merge_references q (url r) now2 (db1\<lparr>n_runs := Suc (n_runs db1)\<rparr>)"
        have o2: "run_outcomes db2 = run_outcomes db"
          using o1 by (simp add: db2_def run_outcomes_frames)
        have "save_sources q (r # rs) db = save_sources q rs db2"
          using False runs(2) r2(2) by (simp add: db1_def db2_def)
        then show ?thesis
          using Cons.IH [of db2] Cons.prems o2 by simp
      qed
    qed
  qed
qed

lemma save_query_and_sources_up:
  assumes "NEO4J_AVAILABLE e" and "driver g \<noteq> None"
    and up: "\<forall>n x. run_outcomes (store g) n \<noteq> Fails x"
  shows "fst (save_query_and_sources e q rs sid g) = Inr () \<and>
         driver (snd (save_query_and_sources e q rs sid g)) = driver g \<and>
         run_outcomes (store (snd (save_query_and_sources e q rs sid g)))
           = run_outcomes (store g)"
proof -
  define sid' where "sid' = (if truthy sid then sid else None)"
  show ?thesis
  proof (cases rule: session_run_cases [where st = "merge_query q sid'" and db = "store g"])
    case (fails x)
    then show ?thesis using up by simp
  next
    case (runs now)
    define db1 where
      "db1 = merge_query q sid' now ((store g)\<lparr>n_runs := Suc (n_runs (store g))\<rparr>)"
    have o1: "run_outcomes db1 = run_outcomes (store g)"
      by (simp add: db1_def run_outcomes_frames)
    then have "\<forall>n x. run_outcomes db1 n \<noteq> Fails x"
      using up by simp
    note l = save_sources_up [OF this, of q rs]
    obtain res db2 where p: "save_sources q rs db1 = (res, db2)"
      by (cases "save_sources q rs db1")
    have "save_query_and_sources e q rs sid g = (res, g\<lparr>store := db2\<rparr>)"
      using assms(1,2) runs(2) p
      by (cases "driver g")
         (simp_all add: save_query_and_sources_def db1_def sid'_def [symmetric])
    then show ?thesis
      using l p o1 by simp
  qed
qed

lemma strip_url0: "strip ''http://a'' \<noteq> []"
  by (simp add: strip_def isspace_def)

lemma graph0_up:
  "NEO4J_AVAILABLE env0" "driver (graph world0) \<noteq> None"
  "\<forall>n x. run_outcomes (store (graph world0)) n \<noteq> Fails x"
  by (simp_all add: env0_def world0_def db0_def)

theorem merge_records_witness:
  "NEO4J_AVAILABLE env0 \<and>
   fst (save_query_and_sources env0 ''q'' results0 (Some ''s1'') (graph world0)) = Inr () \<and>
   fst (save_query_and_sources env0 ''q'' results0 (Some ''s2'') graph1) = Inr () \<and>
   query_count (store (graph world0)) ''q'' \<le> 1 \<and>
   query_count (store graph2) ''q'' = 1 \<and>
   \<lparr>title = ''T'', url = ''http://a'', content = [], source = ''tavily''\<rparr> \<in> set results0 \<and>
   strip ''http://a'' \<noteq> [] \<and>
   source_count (store (graph world0)) ''http://a'' \<le> 1 \<and>
   source_count (store graph2) ''http://a'' = 1 \<and>
   source_count (store graph2) [] = source_count (store (graph world0)) []"
proof -
  note u0 = save_query_and_sources_up [OF graph0_up, of "''q''" results0 "Some ''s1''"]
  have u1: "driver graph1 \<noteq> None" "\<forall>n x. run_outcomes (store graph1) n \<noteq> Fails x"
    using u0 graph0_up by (simp_all add: graph1_def)
  note u2 = save_query_and_sources_up [OF graph0_up(1) u1, of "''q''" results0 "Some ''s2''"]
  have c0: "query_count (store (graph world0)) ''q'' \<le> 1"
    "source_count (store (graph world0)) ''http://a'' \<le> 1"
    by (simp_all add: query_count_def source_count_def world0_def db0_def)
  have m: "\<lparr>title = ''T'', url = ''http://a'', content = [], source = ''tavily''\<rparr> \<in> set results0"
    by (simp add: results0_def)
  have t: "query_count (store graph2) ''q'' = 1 \<and>
      (\<forall>r\<in>set results0.
          strip (url r) \<noteq> [] \<and> source_count (store (graph world0)) (url r) \<le> 1 \<longrightarrow>
          source_count (store graph2) (url r) = 1) \<and>
      source_count (store graph2) [] = source_count (store (graph world0)) []"
    using merge_records [where e = env0 and query_text = "''q''" and query_text' = "''q''"
        and ?rs1.0 = results0 and ?sid1.0 = "Some ''s1''" and g = "graph world0"
        and ?rs2.0 = results0 and ?sid2.0 = "Some ''s2''"]
      graph0_up(1) u0 u2 c0
    by (simp add: Let_def graph1_def [symmetric] graph2_def [symmetric])
  then have "source_count (store graph2) ''http://a'' = 1"
    using m strip_url0 c0(2) by fastforce
  then show ?thesis
    using t graph0_up(1) u0 u2 c0 m strip_url0 by simp
qed

lemma save_filter:
  "save_query_and_sources e q rs sid g
     = save_query_and_sources e q (filter (\<lambda>r. strip (url r) \<noteq> []) rs) sid g"
  unfolding save_query_and_sources_def save_sources_filter [of q rs] by (rule refl)

lemma save_nil_frame:
  "sources (store (snd (save_query_and_sources e q [] sid g))) = sources (store g) \<and>
   references (store (snd (save_query_and_sources e q [] sid g))) = references (store g)"
proof -
  define sid' where "sid' = (if truthy sid then sid else None)"
  show ?thesis
    by (cases rule: session_run_cases [where st = "merge_query q sid'" and db = "store g"])
       (simp_all add: save_query_and_sources_def sid'_def [symmetric] merge_frames)
qed

text \<open>
  C9. \<open>save_query_and_sources\<close> does with a result list what it does with the list
  without the results whose URL consists of white space only: the same outcome and the
  same store. When every result has such a URL, the \<open>Source\<close> records and the
  \<open>REFERENCES\<close> relationships of the store are what they were. For every URL of
  white space only, the number of \<open>Source\<close> records with it is unchanged by the
  call.
\<close>

theorem blank_url_skipped:
  "save_query_and_sources e q rs sid g
     = save_query_and_sources e q (filter (\<lambda>r. \<not> (\<forall>c\<in>set (url r). isspace c)) rs) sid g \<and>
   ((\<forall>r\<in>set rs. \<forall>c\<in>set (url r). isspace c) \<longrightarrow>
      sources (store (snd (save_query_and_sources e q rs sid g))) = sources (store g) \<and>
      references (store (snd (save_query_and_sources e q rs sid g))) = references (store g)) \<and>
   (\<forall>u. (\<forall>c\<in>set u. isspace c) \<longrightarrow>
      source_count (store (snd (save_query_and_sources e q rs sid g))) u
        = source_count (store g) u)"
proof (intro conjI impI allI)
  show f: "save_query_and_sources e q rs sid g
     = save_query_and_sources e q (filter (\<lambda>r. \<not> (\<forall>c\<in>set (url r). isspace c)) rs) sid g"
    using save_filter [of e q rs sid g] by (simp add: strip_empty_iff)
  {
    assume "\<forall>r\<in>set rs. \<forall>c\<in>set (url r). isspace c"
    then have "filter (\<lambda>r. \<not> (\<forall>c\<in>set (url r). isspace c)) rs = []"
      by (simp add: filter_empty_conv)
    then have n: "save_query_and_sources e q rs sid g = save_query_and_sources e q [] sid g"
      using f by simp
    show "sources (store (snd (save_query_and_sources e q rs sid g))) = sources (store g)"
      using save_nil_frame [of e q sid g] by (simp add: n)
    show "references (store (snd (save_query_and_sources e q rs sid g))) = references (store g)"
      using save_nil_frame [of e q sid g] by (simp add: n)
  }
  fix u :: string
  assume b: "\<forall>c\<in>set u. isspace c"
  obtain res g' where s: "save_query_and_sources e q rs sid g = (res, g')"
    by (cases "save_query_and_sources e q rs sid g")
  have "\<forall>r\<in>set rs. strip (url r) \<noteq> [] \<longrightarrow> url r \<noteq> u"
    using b by (auto simp: strip_empty_iff)
  with save_query_and_sources_counts [OF s]
  show "source_count (store (snd (save_query_and_sources e q rs sid g))) u
        = source_count (store g) u"
    by (simp add: s)
qed

theorem blank_url_skipped_witness:
  "list_all (\<lambda>r. list_all isspace (url r)) blank0 \<and>
   save_query_and_sources env0 ''q'' (results0 @ blank0) (Some ''s1'') (graph world0)
     = save_query_and_sources env0 ''q''
         [\<lparr>title = ''T'', url = ''http://a'', content = [], source = ''tavily''\<rparr>]
         (Some ''s1'') (graph world0) \<and>
   sources (store (snd (save_query_and_sources env0 ''q'' blank0 (Some ''s1'') (graph world0))))
     = sources (store (graph world0)) \<and>
   references (store (snd (save_query_and_sources env0 ''q'' blank0 (Some ''s1'') (graph world0))))
     = references (store (graph world0)) \<and>
   source_count (store (snd (save_query_and_sources env0 ''q'' blank0 (Some ''s1'')
                               (graph world0)))) ''  ''
     = source_count (store (graph world0)) ''  ''"
proof -
  have sp: "isspace CHR '' ''"
    by (simp add: isspace_def)
  have a: "list_all (\<lambda>r. list_all isspace (url r)) blank0"
    by (simp add: blank0_def sp)
  have b: "\<forall>r\<in>set blank0. \<forall>c\<in>set (url r). isspace c"
    using a by (simp add: list_all_iff)
  have c: "\<forall>c\<in>set ''  ''. isspace c"
    by (simp add: sp)
  have h: "\<not> isspace CHR ''h''"
    by (simp add: isspace_def)
  have d: "filter (\<lambda>r. \<not> (\<forall>c\<in>set (url r). isspace c)) (results0 @ blank0)
           = [\<lparr>title = ''T'', url = ''http://a'', content = [], source = ''tavily''\<rparr>]"
    by (simp add: results0_def blank0_def sp h)
  note t1 = blank_url_skipped [of env0 "''q''" "results0 @ blank0" "Some ''s1''" "graph world0"]
  note t2 = blank_url_skipped [of env0 "''q''" blank0 "Some ''s1''" "graph world0"]
  have p1: "save_query_and_sources env0 ''q'' (results0 @ blank0) (Some ''s1'') (graph world0)
     = save_query_and_sources env0 ''q''
         [\<lparr>title = ''T'', url = ''http://a'', content = [], source = ''tavily''\<rparr>]
         (Some ''s1'') (graph world0)"
    using t1 d by simp
  have p2: "sources (store (snd (save_query_and_sources env0 ''q'' blank0 (Some ''s1'')
                (graph world0)))) = sources (store (graph world0)) \<and>
     references (store (snd (save_query_and_sources env0 ''q'' blank0 (Some ''s1'')
                (graph world0)))) = references (store (graph world0))"
    using t2 b by blast
  have p3: "source_count (store (snd (save_query_and_sources env0 ''q'' blank0 (Some ''s1'')
                               (graph world0)))) ''  ''
     = source_count (store (graph world0)) ''  ''"
    using t2 c by blast
  show ?thesis
    using a p1 p2 p3 by simp
qed

end
